theory Spec2Isabelle
  imports Complex_Main "HOL-Library.Multiset" "HOL-Library.Sublist"
    "HOL-Library.Product_Lexorder" "HOL-Library.List_Lexorder" "HOL-Library.Option_ord"
begin

section \<open>Dates and master data\<close>

text \<open>
  A \<^verbatim>\<open>datetime.date\<close> is modelled by its proleptic Gregorian ordinal
  (\<^verbatim>\<open>date.toordinal()\<close>), an integer; adding a \<^verbatim>\<open>timedelta(days=n)\<close> is integer
  addition. \<^verbatim>\<open>date.weekday()\<close> is \<^verbatim>\<open>(toordinal() + 6) % 7\<close>: Monday is 0 and
  Sunday is 6. The calendar's range (years 1 to 9999) is not part of the model.
  Float columns (amounts, prices, seed quantities) are idealised as reals.
\<close>

type_synonym date = int

definition weekday :: "date \<Rightarrow> int" where
  "weekday d = (d + 6) mod 7"

text \<open>
  A Python \<^verbatim>\<open>str\<close> is the list of its code points; \<open>str\<close> turns an ASCII literal
  into one.
\<close>

type_synonym pystr = "nat list"

definition str :: "string \<Rightarrow> pystr" where
  "str s = map of_char s"

text \<open>\<^verbatim>\<open>models.Item\<close> with its property \<^verbatim>\<open>total_days\<close>.\<close>

record item =
  item_id :: nat
  item_name :: pystr
  seed_quantity :: real
  soaking_days :: int
  germination_days :: int
  growth_days :: int
  price :: real
  substrate :: "pystr option"

definition total_days :: "item \<Rightarrow> int" where
  "total_days i = germination_days i + growth_days i"

text \<open>
  An \<^verbatim>\<open>OrderItem\<close> instance as the date computation sees it: its primary key
  (\<^verbatim>\<open>None\<close> for the temporary instances built by the edit form), the item it
  refers to (already resolved) and the amount.
\<close>

record order_item =
  oi_pk :: "nat option"
  item :: item
  amount :: real

section \<open>Date rules (database.py)\<close>

text \<open>
  \<^verbatim>\<open>calculate_itemwise_production_dates(delivery_date, items, allow_sunday=True)\<close>.
  The returned dict is kept as the list of its entries in insertion order; the
  instances passed by the callers are pairwise distinct keys.
\<close>

fun calculate_itemwise_production_dates ::
  "date \<Rightarrow> order_item list \<Rightarrow> bool \<Rightarrow> (order_item \<times> date) list" where
  "calculate_itemwise_production_dates delivery_date [] allow_sunday = []"
| "calculate_itemwise_production_dates delivery_date (order_item # items) allow_sunday =
     (let days = total_days (item order_item);
          production_date = delivery_date - days;
          production_date = (if \<not> allow_sunday \<and> weekday production_date = 6
                             then production_date - 1 else production_date)
      in (order_item, production_date)
           # calculate_itemwise_production_dates delivery_date items allow_sunday)"

text \<open>A call that leaves \<^verbatim>\<open>allow_sunday\<close> at its default, \<^verbatim>\<open>True\<close>.\<close>

definition calculate_itemwise_production_dates_default ::
  "date \<Rightarrow> order_item list \<Rightarrow> (order_item \<times> date) list" where
  "calculate_itemwise_production_dates_default delivery_date items =
     calculate_itemwise_production_dates delivery_date items True"

text \<open>
  The dates stored on a line item. Every place that writes an \<^verbatim>\<open>OrderItem\<close> row
  (\<^verbatim>\<open>save_changes\<close>, \<^verbatim>\<open>save_order\<close>, \<^verbatim>\<open>recreate_order_from_data\<close>) computes
  them with the same three lines:
  \<^verbatim>\<open>total_days = item.germination_days + item.growth_days\<close>,
  \<^verbatim>\<open>production_date = delivery_date - timedelta(days=total_days)\<close>,
  \<^verbatim>\<open>transfer_date = production_date + timedelta(days=item.germination_days)\<close>.
\<close>

definition line_item_dates :: "date \<Rightarrow> item \<Rightarrow> date \<times> date" where
  "line_item_dates delivery_date i =
     (let total_days = germination_days i + growth_days i;
          production_date = delivery_date - total_days;
          transfer_date = production_date + germination_days i
      in (production_date, transfer_date))"

text \<open>
  The \<^verbatim>\<open>production_date\<close> attribute of an \<^verbatim>\<open>Order\<close> instance. \<^verbatim>\<open>Order\<close> has no
  such column: the attribute exists only on instances that were built with it
  (\<^verbatim>\<open>Order.create(production_date=...)\<close>) or had it assigned, and holds either a
  single date or the dict of \<^verbatim>\<open>calculate_itemwise_production_dates\<close>. On an
  instance loaded by a query, reading it raises \<^verbatim>\<open>AttributeError\<close>.
\<close>

datatype production_attr =
    NoAttribute
  | DateValue date
  | DictValue "(order_item \<times> date) list"

datatype py_error = KeyError | AttributeError | DoesNotExist | IntegrityError

text \<open>
  An \<^verbatim>\<open>Order\<close> instance as \<^verbatim>\<open>generate_subscription_orders\<close> reads it;
  \<^verbatim>\<open>order_items\<close> is the result of the back-reference query.
\<close>

record order_obj =
  customer :: nat
  delivery_date :: date
  from_date :: "date option"
  to_date :: "date option"
  subscription_type :: int
  halbe_channel :: bool
  production_date :: production_attr
  order_items :: "order_item list"

text \<open>The dict built for each future order.\<close>

record new_order =
  no_customer :: nat
  no_delivery_date :: date
  no_production_date :: "(order_item \<times> date) list"
  no_halbe_channel :: bool
  no_is_future :: bool
  no_subscription_type :: int
  no_from_date :: "date option"
  no_to_date :: "date option"

definition frequencies :: "int \<Rightarrow> int option" where
  "frequencies = [1 \<mapsto> 7, 2 \<mapsto> 14, 3 \<mapsto> 21, 4 \<mapsto> 28]"

text \<open>
  The Sunday allowance the loop body derives from the seed order:
  \<^verbatim>\<open>sample_date = next(iter(production_dates.values()), None)\<close> and
  \<^verbatim>\<open>allow_sunday = sample_date.weekday() != 6 if sample_date else True\<close>.
\<close>

definition seed_allow_sunday :: "production_attr \<Rightarrow> py_error + bool" where
  "seed_allow_sunday attr =
     (case attr of
        NoAttribute \<Rightarrow> Inl AttributeError
      | DateValue d \<Rightarrow> Inr True
      | DictValue production_dates \<Rightarrow>
          (case production_dates of
             [] \<Rightarrow> Inr True
           | (k, sample_date) # rest \<Rightarrow> Inr (weekday sample_date \<noteq> 6)))"

definition new_order_dict :: "order_obj \<Rightarrow> bool \<Rightarrow> date \<Rightarrow> new_order" where
  "new_order_dict order allow_sunday current_date =
     \<lparr> no_customer = customer order,
       no_delivery_date = current_date,
       no_production_date =
         calculate_itemwise_production_dates current_date (order_items order) allow_sunday,
       no_halbe_channel = halbe_channel order,
       no_is_future = True,
       no_subscription_type = subscription_type order,
       no_from_date = from_date order,
       no_to_date = to_date order \<rparr>"

definition build_new_order :: "order_obj \<Rightarrow> date \<Rightarrow> py_error + new_order" where
  "build_new_order order current_date =
     (case seed_allow_sunday (production_date order) of
        Inl e \<Rightarrow> Inl e
      | Inr allow_sunday \<Rightarrow> Inr (new_order_dict order allow_sunday current_date))"

text \<open>
  The \<^verbatim>\<open>while current_date <= order.to_date\<close> loop, with the list \<^verbatim>\<open>orders\<close> it
  appends to. Nothing in the loop itself bounds the number of rounds, so it is a
  partial function; that it returns is proved below from \<^verbatim>\<open>delta\<close> being positive.
\<close>

partial_function (option) subscription_loop ::
  "order_obj \<Rightarrow> int \<Rightarrow> date \<Rightarrow> date \<Rightarrow> new_order list \<Rightarrow> (py_error + new_order list) option" where
  "subscription_loop order delta end_date current_date orders =
     (if current_date \<le> end_date then
        (case build_new_order order current_date of
           Inl e \<Rightarrow> Some (Inl e)
         | Inr new_order \<Rightarrow>
             subscription_loop order delta end_date (current_date + delta) (orders @ [new_order]))
      else Some (Inr orders))"

declare subscription_loop.simps [code]

definition generate_subscription_orders :: "order_obj \<Rightarrow> (py_error + new_order list) option" where
  "generate_subscription_orders order =
     (if subscription_type order = 0 \<or> from_date order = None \<or> to_date order = None
      then Some (Inr [])
      else
        (case frequencies (subscription_type order) of
           None \<Rightarrow> Some (Inl KeyError)
         | Some delta \<Rightarrow>
             (case to_date order of
                None \<Rightarrow> Some (Inr [])
              | Some end_date \<Rightarrow>
                  subscription_loop order delta end_date (delivery_date order + delta) [])))"

section \<open>The store (models.py)\<close>

text \<open>
  The tables \<^verbatim>\<open>order\<close>, \<^verbatim>\<open>orderitem\<close> and \<^verbatim>\<open>item\<close> as lists of rows. Row ids are
  the integer primary keys; \<^verbatim>\<open>order_id\<close> is the UUID column with its unique index,
  \<^verbatim>\<open>created_at\<close> a point in time. The database is opened without the
  \<^verbatim>\<open>foreign_keys\<close> pragma, so references are not enforced by the engine and
  \<^verbatim>\<open>ON DELETE CASCADE\<close> is not in effect: line items go away only where the code
  deletes them (\<^verbatim>\<open>delete_instance(recursive=True)\<close>).
\<close>

type_synonym uuid = nat

record order_row =
  row_id :: nat
  row_customer :: nat
  row_delivery_date :: date
  row_from_date :: "date option"
  row_to_date :: "date option"
  row_subscription_type :: int
  row_halbe_channel :: bool
  row_order_id :: uuid
  row_is_future :: bool
  row_created_at :: int

record orderitem_row =
  li_id :: nat
  li_order :: nat
  li_item :: nat
  li_amount :: real
  li_production_date :: date
  li_transfer_date :: "date option"

record database =
  order_table :: "order_row list"
  orderitem_table :: "orderitem_row list"
  item_table :: "item list"

text \<open>
  The key of a new row: SQLite gives an \<^verbatim>\<open>INTEGER PRIMARY KEY\<close> column one more
  than the largest key in the table (1 in an empty table).
\<close>

definition next_id :: "nat list \<Rightarrow> nat" where
  "next_id ids = Suc (fold max ids 0)"

text \<open>\<^verbatim>\<open>order.order_items\<close>, the back-reference query.\<close>

definition order_items_of :: "database \<Rightarrow> nat \<Rightarrow> orderitem_row list" where
  "order_items_of db oid = filter (\<lambda>li. li_order li = oid) (orderitem_table db)"

text \<open>\<^verbatim>\<open>Item.get(Item.id == i)\<close>, which raises \<^verbatim>\<open>DoesNotExist\<close> when no row has the key.\<close>

definition get_item :: "database \<Rightarrow> nat \<Rightarrow> py_error + item" where
  "get_item db i =
     (case find (\<lambda>it. item_id it = i) (item_table db) of
        None \<Rightarrow> Inl DoesNotExist
      | Some it \<Rightarrow> Inr it)"

text \<open>
  \<^verbatim>\<open>order.delete_instance(recursive=True)\<close>: first the line items that refer to the
  order, then the order's row.
\<close>

definition delete_instance_recursive :: "database \<Rightarrow> nat \<Rightarrow> database" where
  "delete_instance_recursive db oid =
     db \<lparr> orderitem_table := filter (\<lambda>li. li_order li \<noteq> oid) (orderitem_table db),
          order_table := filter (\<lambda>r. row_id r \<noteq> oid) (order_table db) \<rparr>"

text \<open>
  \<^verbatim>\<open>with db.atomic()\<close>: an exception that leaves the block rolls every write back; a
  block left in any other way, including by \<^verbatim>\<open>return\<close>, is committed.
\<close>

definition atomic :: "database \<Rightarrow> py_error + database \<Rightarrow> database" where
  "atomic db r = (case r of Inl e \<Rightarrow> db | Inr db' \<Rightarrow> db')"

section \<open>Scoped delete (weekly\_view.py, delete\_order)\<close>

text \<open>
  The set built by \<^verbatim>\<open>for order_item in o.order_items: s.add(order_item.item.id)\<close>.
  Reading \<^verbatim>\<open>order_item.item\<close> fetches the item and raises when it is missing.
\<close>

fun item_id_set :: "database \<Rightarrow> orderitem_row list \<Rightarrow> py_error + nat set" where
  "item_id_set db [] = Inr {}"
| "item_id_set db (order_item # rest) =
     (case get_item db (li_item order_item) of
        Inl e \<Rightarrow> Inl e
      | Inr it \<Rightarrow>
          (case item_id_set db rest of
             Inl e \<Rightarrow> Inl e
           | Inr s \<Rightarrow> Inr (insert (item_id it) s)))"

text \<open>The loop that filters \<^verbatim>\<open>future_orders_query\<close> into \<^verbatim>\<open>matching_orders\<close>.\<close>

fun matching_orders ::
  "database \<Rightarrow> int \<Rightarrow> nat set \<Rightarrow> order_row list \<Rightarrow> py_error + order_row list" where
  "matching_orders db current_weekday current_order_items [] = Inr []"
| "matching_orders db current_weekday current_order_items (future_order # rest) =
     (if weekday (row_delivery_date future_order) \<noteq> current_weekday
      then matching_orders db current_weekday current_order_items rest
      else
        (case item_id_set db (order_items_of db (row_id future_order)) of
           Inl e \<Rightarrow> Inl e
         | Inr order_item_ids \<Rightarrow>
             (case matching_orders db current_weekday current_order_items rest of
                Inl e \<Rightarrow> Inl e
              | Inr matching \<Rightarrow>
                  Inr (if order_item_ids = current_order_items
                       then future_order # matching else matching))))"


text \<open>The branch \<^verbatim>\<open>scope == "current"\<close>: only the order itself.\<close>

definition delete_order_current :: "database \<Rightarrow> order_row \<Rightarrow> database" where
  "delete_order_current db order = delete_instance_recursive db (row_id order)"





section \<open>Writes used by the edit form\<close>

text \<open>
  \<^verbatim>\<open>OrderItem.create(order=o, item=it, amount=a, production_date=.., transfer_date=..)\<close>
  with the two dates computed from the order's delivery date as in
  \<open>line_item_dates\<close>.
\<close>

definition create_orderitem :: "database \<Rightarrow> nat \<Rightarrow> item \<Rightarrow> real \<Rightarrow> date \<Rightarrow> database" where
  "create_orderitem db oid it a delivery =
     db \<lparr> orderitem_table := orderitem_table db @
            [\<lparr> li_id = next_id (map li_id (orderitem_table db)), li_order = oid,
               li_item = item_id it, li_amount = a,
               li_production_date = fst (line_item_dates delivery it),
               li_transfer_date = Some (snd (line_item_dates delivery it)) \<rparr>] \<rparr>"

text \<open>\<^verbatim>\<open>order_obj.save()\<close>: an \<^verbatim>\<open>UPDATE\<close> of the row with the instance's key.\<close>

definition save_order_row :: "database \<Rightarrow> order_row \<Rightarrow> database" where
  "save_order_row db r =
     db \<lparr> order_table := map (\<lambda>x. if row_id x = row_id r then r else x) (order_table db) \<rparr>"

text \<open>
  \<^verbatim>\<open>Order.create(**future_data, order_id=uuid.uuid4())\<close>. The \<^verbatim>\<open>production_date\<close> entry
  of the dict becomes an attribute of the instance and is not stored; \<^verbatim>\<open>created_at\<close>
  takes its default, the current time. The unique index on \<^verbatim>\<open>order_id\<close> rejects a
  value that is already in the table.
\<close>

definition create_order ::
  "database \<Rightarrow> new_order \<Rightarrow> uuid \<Rightarrow> int \<Rightarrow> py_error + database \<times> order_row" where
  "create_order db future_data oid now =
     (if oid \<in> row_order_id ` set (order_table db) then Inl IntegrityError
      else
        (let r = \<lparr> row_id = next_id (map row_id (order_table db)),
                     row_customer = no_customer future_data,
                     row_delivery_date = no_delivery_date future_data,
                     row_from_date = no_from_date future_data,
                     row_to_date = no_to_date future_data,
                     row_subscription_type = no_subscription_type future_data,
                     row_halbe_channel = no_halbe_channel future_data,
                     row_order_id = oid,
                     row_is_future = no_is_future future_data,
                     row_created_at = now \<rparr>
         in Inr (db \<lparr> order_table := order_table db @ [r] \<rparr>, r)))"

section \<open>Scoped edit (weekly\_view.py, save\_changes)\<close>

datatype scope = OnlyThis | ThisAndFuture

text \<open>
  What the form hands to the transaction once its fields have been read: the parsed
  delivery date, the parsed window (both \<^verbatim>\<open>None\<close> when \<^verbatim>\<open>sub_var\<close> is 0), the cadence
  code, the channel flag and the validated \<^verbatim>\<open>order_items_data\<close>.
\<close>

record edit_form =
  new_date :: date
  form_from_date :: "date option"
  form_to_date :: "date option"
  sub_var :: int
  halbe_var :: bool
  order_items_data :: "(pystr \<times> real) list"

text \<open>
  \<^verbatim>\<open>temp_items\<close>: one unsaved \<^verbatim>\<open>OrderItem\<close> per entry, the item looked up in the
  dict \<^verbatim>\<open>self.app.items\<close>.
\<close>

fun temp_items_of :: "(pystr \<rightharpoonup> item) \<Rightarrow> (pystr \<times> real) list \<Rightarrow> py_error + order_item list" where
  "temp_items_of app_items [] = Inr []"
| "temp_items_of app_items ((item_nm, a) # rest) =
     (case app_items item_nm of
        None \<Rightarrow> Inl KeyError
      | Some it \<Rightarrow>
          (case temp_items_of app_items rest of
             Inl e \<Rightarrow> Inl e
           | Inr temp_items \<Rightarrow> Inr (\<lparr> oi_pk = None, item = it, amount = a \<rparr> # temp_items)))"

text \<open>The loop that writes the submitted line items for the edited order.\<close>

fun create_items_from_data ::
  "(pystr \<rightharpoonup> item) \<Rightarrow> database \<Rightarrow> nat \<Rightarrow> date \<Rightarrow> (pystr \<times> real) list \<Rightarrow> py_error + database" where
  "create_items_from_data app_items db oid delivery [] = Inr db"
| "create_items_from_data app_items db oid delivery ((item_nm, a) # rest) =
     (case app_items item_nm of
        None \<Rightarrow> Inl KeyError
      | Some it \<Rightarrow>
          create_items_from_data app_items (create_orderitem db oid it a delivery) oid delivery rest)"

text \<open>
  The detach decision, with the source's nesting:
  \<^verbatim>\<open>if scope == 'only_this': if new_date != original_delivery_date or sub_var.get() != original_subscription_type: ...\<close>
\<close>

definition should_detach :: "scope \<Rightarrow> date \<Rightarrow> date \<Rightarrow> int \<Rightarrow> int \<Rightarrow> bool" where
  "should_detach sc new_d original_delivery_date sub original_subscription_type =
     (if sc = OnlyThis then
        (if new_d \<noteq> original_delivery_date \<or> sub \<noteq> original_subscription_type then
           (let detach = (if sub \<noteq> original_subscription_type then True else False)
            in if new_d \<noteq> original_delivery_date \<and> 0 < original_subscription_type
               then True else detach)
         else False)
      else False)"

text \<open>
  The line items of a stored order with their items fetched, as
  \<^verbatim>\<open>order_item.item\<close> does on first use.
\<close>

fun resolve_items :: "database \<Rightarrow> orderitem_row list \<Rightarrow> py_error + order_item list" where
  "resolve_items db [] = Inr []"
| "resolve_items db (li # rest) =
     (case get_item db (li_item li) of
        Inl e \<Rightarrow> Inl e
      | Inr it \<Rightarrow>
          (case resolve_items db rest of
             Inl e \<Rightarrow> Inl e
           | Inr ois \<Rightarrow> Inr (\<lparr> oi_pk = Some (li_id li), item = it, amount = li_amount li \<rparr> # ois)))"

text \<open>
  \<^verbatim>\<open>generate_subscription_orders(order_obj)\<close> for a stored order whose
  \<^verbatim>\<open>production_date\<close> attribute is \<open>attr\<close>. The items of its line items are fetched
  inside the loop body only, so a line item with a missing item raises in the first
  round and not at all when the loop makes no round.
\<close>

definition generate_for_stored_order ::
  "database \<Rightarrow> order_row \<Rightarrow> production_attr \<Rightarrow> (py_error + new_order list) option" where
  "generate_for_stored_order db r attr =
     (let instance = (\<lambda>ois. \<lparr> customer = row_customer r, delivery_date = row_delivery_date r,
                              from_date = row_from_date r, to_date = row_to_date r,
                              subscription_type = row_subscription_type r,
                              halbe_channel = row_halbe_channel r,
                              production_date = attr, order_items = ois \<rparr>)
      in case resolve_items db (order_items_of db (row_id r)) of
           Inr ois \<Rightarrow> generate_subscription_orders (instance ois)
         | Inl e \<Rightarrow>
             (case generate_subscription_orders (instance []) of
                Some (Inr (first_round # later_rounds)) \<Rightarrow> Some (Inl e)
              | res \<Rightarrow> res))"

text \<open>Copying the edited order's line items onto one new future order.\<close>

fun copy_items :: "database \<Rightarrow> nat \<Rightarrow> date \<Rightarrow> orderitem_row list \<Rightarrow> py_error + database" where
  "copy_items db oid delivery [] = Inr db"
| "copy_items db oid delivery (item_data # rest) =
     (case get_item db (li_item item_data) of
        Inl e \<Rightarrow> Inl e
      | Inr it \<Rightarrow> copy_items (create_orderitem db oid it (li_amount item_data) delivery) oid delivery rest)"

text \<open>
  The loop over \<^verbatim>\<open>new_future_orders\<close>: a date that already has an order of the customer
  with the same window is skipped; otherwise the order is created with the next value
  of \<^verbatim>\<open>uuid.uuid4()\<close> (\<open>uuid4 k\<close> is the \<open>k\<close>-th value drawn) and gets the copied items.
\<close>

fun create_future_orders ::
  "(nat \<Rightarrow> uuid) \<Rightarrow> int \<Rightarrow> nat \<Rightarrow> orderitem_row list \<Rightarrow> database \<Rightarrow> nat \<Rightarrow> new_order list
     \<Rightarrow> py_error + database" where
  "create_future_orders uuid4 now cust current_items db k [] = Inr db"
| "create_future_orders uuid4 now cust current_items db k (future_data # rest) =
     (if list_ex (\<lambda>r. row_customer r = cust
                      \<and> row_delivery_date r = no_delivery_date future_data
                      \<and> row_from_date r = no_from_date future_data
                      \<and> row_to_date r = no_to_date future_data) (order_table db)
      then create_future_orders uuid4 now cust current_items db k rest
      else
        (case create_order db future_data (uuid4 k) now of
           Inl e \<Rightarrow> Inl e
         | Inr (db1, new_future_order) \<Rightarrow>
             (case copy_items db1 (row_id new_future_order)
                     (row_delivery_date new_future_order) current_items of
                Inl e \<Rightarrow> Inl e
              | Inr db2 \<Rightarrow>
                  create_future_orders uuid4 now cust current_items db2 (Suc k) rest)))"

text \<open>The query \<^verbatim>\<open>future_orders_to_delete\<close>.\<close>

definition future_orders_to_delete ::
  "database \<Rightarrow> order_row \<Rightarrow> date option \<Rightarrow> date option \<Rightarrow> int \<Rightarrow> date \<Rightarrow> order_row list" where
  "future_orders_to_delete db order_obj original_from_date original_to_date
       original_subscription_type original_delivery_date =
     filter (\<lambda>r. row_customer r = row_customer order_obj
                 \<and> row_from_date r = original_from_date
                 \<and> row_to_date r = original_to_date
                 \<and> row_subscription_type r = original_subscription_type
                 \<and> original_delivery_date < row_delivery_date r
                 \<and> row_id r \<noteq> row_id order_obj) (order_table db)"

text \<open>
  The body of \<^verbatim>\<open>with self.db.atomic()\<close> for an existing order (lines 906 to 1034).
  \<open>order_obj\<close> is the instance the dialog was opened with, \<open>now\<close> the time of the
  call. The result is \<open>Inl\<close> when an exception leaves the block. The loop
  \<^verbatim>\<open>for oi in order_obj.order_items: oi.delete_instance()\<close> deletes, by their keys, the
  rows the back-reference query returns: the line items that refer to the order.
\<close>

definition save_changes_edit ::
  "(pystr \<rightharpoonup> item) \<Rightarrow> (nat \<Rightarrow> uuid) \<Rightarrow> int \<Rightarrow> database \<Rightarrow> order_row \<Rightarrow> edit_form \<Rightarrow> scope
     \<Rightarrow> (py_error + database) option" where
  "save_changes_edit app_items uuid4 now db order_obj form sc =
     (let original_delivery_date = row_delivery_date order_obj;
          original_subscription_type = row_subscription_type order_obj;
          original_from_date = row_from_date order_obj;
          original_to_date = row_to_date order_obj;
          order_obj = order_obj \<lparr> row_delivery_date := new_date form,
                                 row_from_date := form_from_date form,
                                 row_to_date := form_to_date form,
                                 row_subscription_type := sub_var form,
                                 row_halbe_channel := halbe_var form \<rparr>
      in case temp_items_of app_items (order_items_data form) of
           Inl e \<Rightarrow> Some (Inl e)
         | Inr temp_items \<Rightarrow>
        (let new_production_date =
               calculate_itemwise_production_dates_default (new_date form) temp_items;
             db = db \<lparr> orderitem_table :=
                        filter (\<lambda>oi. li_order oi \<noteq> row_id order_obj) (orderitem_table db) \<rparr>
         in case create_items_from_data app_items db (row_id order_obj) (new_date form)
                   (order_items_data form) of
              Inl e \<Rightarrow> Some (Inl e)
            | Inr db \<Rightarrow>
           (let order_obj =
                  (if should_detach sc (new_date form) original_delivery_date (sub_var form)
                        original_subscription_type
                   then order_obj \<lparr> row_from_date := None, row_to_date := None,
                                    row_subscription_type := 0 \<rparr>
                   else order_obj);
                db = save_order_row db order_obj
            in if sc = ThisAndFuture \<and> 0 < sub_var form then
                 (let db = fold (\<lambda>future_order d. delete_instance_recursive d (row_id future_order))
                             (future_orders_to_delete db order_obj original_from_date
                                original_to_date original_subscription_type
                                original_delivery_date) db
                  in if 0 < row_subscription_type order_obj \<and> row_from_date order_obj \<noteq> None
                        \<and> row_to_date order_obj \<noteq> None
                     then
                       (case generate_for_stored_order db order_obj
                               (DictValue new_production_date) of
                          None \<Rightarrow> None
                        | Some (Inl e) \<Rightarrow> Some (Inl e)
                        | Some (Inr new_future_orders) \<Rightarrow>
                            Some (create_future_orders uuid4 now (row_customer order_obj)
                                    (order_items_of db (row_id order_obj)) db 0
                                    (filter (\<lambda>fo. original_delivery_date < no_delivery_date fo)
                                       new_future_orders)))
                     else Some (Inr db))
               else Some (Inr db))))"




section \<open>Undo log (main.py)\<close>

text \<open>
  \<^verbatim>\<open>serialize_order\<close>: the snapshot of an order and its line items that the undo log
  keeps. Dates are written as \<^verbatim>\<open>%Y-%m-%d\<close> strings and parsed back when the snapshot is
  used; the model keeps the date. The snapshot has no entry for \<^verbatim>\<open>created_at\<close>. Reading
  \<^verbatim>\<open>item.item.id\<close> fetches the item of each line item and raises when it is missing;
  the customer an order refers to is taken to exist (the application refuses to delete
  a customer that has orders).
\<close>

record order_snapshot =
  snap_id :: nat
  snap_order_id :: uuid
  snap_customer_id :: nat
  snap_delivery_date :: date
  snap_from_date :: "date option"
  snap_to_date :: "date option"
  snap_subscription_type :: int
  snap_halbe_channel :: bool
  snap_is_future :: bool
  snap_order_items :: "(nat \<times> nat \<times> real) list"

fun serialize_items :: "database \<Rightarrow> orderitem_row list \<Rightarrow> py_error + (nat \<times> nat \<times> real) list" where
  "serialize_items db [] = Inr []"
| "serialize_items db (li # rest) =
     (case get_item db (li_item li) of
        Inl e \<Rightarrow> Inl e
      | Inr it \<Rightarrow>
          (case serialize_items db rest of
             Inl e \<Rightarrow> Inl e
           | Inr xs \<Rightarrow> Inr ((li_id li, item_id it, li_amount li) # xs)))"

definition serialize_order :: "database \<Rightarrow> order_row \<Rightarrow> py_error + order_snapshot" where
  "serialize_order db order =
     (case serialize_items db (order_items_of db (row_id order)) of
        Inl e \<Rightarrow> Inl e
      | Inr xs \<Rightarrow>
          Inr \<lparr> snap_id = row_id order,
                snap_order_id = row_order_id order,
                snap_customer_id = row_customer order,
                snap_delivery_date = row_delivery_date order,
                snap_from_date = row_from_date order,
                snap_to_date = row_to_date order,
                snap_subscription_type = row_subscription_type order,
                snap_halbe_channel = row_halbe_channel order,
                snap_is_future = row_is_future order,
                snap_order_items = xs \<rparr>)"

text \<open>
  The data of an order action: one snapshot, or the dict \<^verbatim>\<open>{'orders': [...]}\<close> of a
  series-wide action. Of the action types only creating and deleting an order are
  modelled: \<^verbatim>\<open>create_order\<close> carries \<^verbatim>\<open>{'order_id': .., 'count': ..}\<close> as new data,
  \<^verbatim>\<open>delete_order\<close> carries the snapshot as old data.
\<close>

datatype order_data = OneOrder order_snapshot | Orders "order_snapshot list"

datatype action = CreateOrder uuid nat | DeleteOrder order_data

record app_state =
  undo_stack :: "action list"
  undo_pointer :: int

definition max_undo_steps :: nat where
  "max_undo_steps = 20"

definition record_action :: "app_state \<Rightarrow> action \<Rightarrow> app_state" where
  "record_action app a =
     (let stack = (if undo_pointer app < int (length (undo_stack app)) - 1
                   then take (nat (undo_pointer app + 1)) (undo_stack app)
                   else undo_stack app);
          stack = stack @ [a];
          stack = (if max_undo_steps < length stack then tl stack else stack)
      in \<lparr> undo_stack = stack, undo_pointer = int (length stack) - 1 \<rparr>)"

text \<open>
  Undoing a creation. The two \<^verbatim>\<open>Order.delete().where(...).execute()\<close> statements are
  plain \<^verbatim>\<open>DELETE\<close>s on the order table: they do not touch the line items.
\<close>

definition undo_create_order :: "database \<Rightarrow> uuid \<Rightarrow> database" where
  "undo_create_order db oid =
     (case find (\<lambda>r. row_order_id r = oid) (order_table db) of
        None \<Rightarrow> db
      | Some main_order \<Rightarrow>
          (if row_from_date main_order \<noteq> None \<and> row_to_date main_order \<noteq> None
                \<and> 0 < row_subscription_type main_order
           then db \<lparr> order_table :=
                  filter (\<lambda>r. \<not> (row_from_date r = row_from_date main_order
                                   \<and> row_to_date r = row_to_date main_order
                                   \<and> row_customer r = row_customer main_order))
                    (order_table db) \<rparr>
           else db \<lparr> order_table := filter (\<lambda>r. row_order_id r \<noteq> oid) (order_table db) \<rparr>))"

text \<open>
  \<^verbatim>\<open>recreate_order_from_data\<close> for one snapshot. The line items are recreated from
  their \<^verbatim>\<open>item_id\<close> and \<^verbatim>\<open>amount\<close>, the dates computed anew from the order's delivery
  date. A row created here takes the next key and the current time as \<^verbatim>\<open>created_at\<close>.
\<close>

fun recreate_items :: "database \<Rightarrow> nat \<Rightarrow> date \<Rightarrow> (nat \<times> nat \<times> real) list \<Rightarrow> py_error + database" where
  "recreate_items db oid delivery [] = Inr db"
| "recreate_items db oid delivery ((old_id, iid, a) # rest) =
     (case get_item db iid of
        Inl e \<Rightarrow> Inl e
      | Inr it \<Rightarrow> recreate_items (create_orderitem db oid it a delivery) oid delivery rest)"

definition recreate_order :: "int \<Rightarrow> database \<Rightarrow> order_snapshot \<Rightarrow> py_error + database" where
  "recreate_order now db order_dict =
     (case find (\<lambda>r. row_order_id r = snap_order_id order_dict) (order_table db) of
        Some existing_order \<Rightarrow>
          (let order = existing_order
                 \<lparr> row_customer := snap_customer_id order_dict,
                   row_delivery_date := snap_delivery_date order_dict,
                   row_from_date := snap_from_date order_dict,
                   row_to_date := snap_to_date order_dict,
                   row_subscription_type := snap_subscription_type order_dict,
                   row_halbe_channel := snap_halbe_channel order_dict,
                   row_is_future := snap_is_future order_dict \<rparr>;
               db = save_order_row db order;
               db = db \<lparr> orderitem_table :=
                          filter (\<lambda>li. li_order li \<noteq> row_id order) (orderitem_table db) \<rparr>
           in recreate_items db (row_id order) (row_delivery_date order)
                (snap_order_items order_dict))
      | None \<Rightarrow>
          (let order = \<lparr> row_id = next_id (map row_id (order_table db)),
                         row_customer = snap_customer_id order_dict,
                         row_delivery_date = snap_delivery_date order_dict,
                         row_from_date = snap_from_date order_dict,
                         row_to_date = snap_to_date order_dict,
                         row_subscription_type = snap_subscription_type order_dict,
                         row_halbe_channel = snap_halbe_channel order_dict,
                         row_order_id = snap_order_id order_dict,
                         row_is_future = snap_is_future order_dict,
                         row_created_at = now \<rparr>;
               db = db \<lparr> order_table := order_table db @ [order] \<rparr>
           in recreate_items db (row_id order) (row_delivery_date order)
                (snap_order_items order_dict)))"

text \<open>
  The batch case calls the function once per snapshot; an exception in any call leaves
  all the nested blocks and the outermost one rolls everything back.
  \<^verbatim>\<open>order_data.pop('order_items', [])\<close> removes the line items from the snapshot that
  the log holds, so the functions also return the data as they leave it.
\<close>

fun recreate_orders ::
  "int \<Rightarrow> database \<Rightarrow> order_snapshot list \<Rightarrow> order_snapshot list \<times> (py_error + database)" where
  "recreate_orders now db [] = ([], Inr db)"
| "recreate_orders now db (order # rest) =
     (case recreate_order now db order of
        Inl e \<Rightarrow> (order \<lparr> snap_order_items := [] \<rparr> # rest, Inl e)
      | Inr db' \<Rightarrow>
          (case recreate_orders now db' rest of
             (rest', res) \<Rightarrow> (order \<lparr> snap_order_items := [] \<rparr> # rest', res)))"

definition recreate_order_from_data ::
  "int \<Rightarrow> database \<Rightarrow> order_data \<Rightarrow> order_data \<times> (py_error + database)" where
  "recreate_order_from_data now db data =
     (case data of
        Orders orders \<Rightarrow>
          (case recreate_orders now db orders of (orders', res) \<Rightarrow> (Orders orders', res))
      | OneOrder order_dict \<Rightarrow>
          (OneOrder (order_dict \<lparr> snap_order_items := [] \<rparr>), recreate_order now db order_dict))"

text \<open>
  \<^verbatim>\<open>undo_last_action\<close> for the two order actions. The pointer moves down only when no
  exception was raised; an exception leaves the store as it was.
\<close>

definition undo_last_action :: "int \<Rightarrow> database \<times> app_state \<Rightarrow> database \<times> app_state" where
  "undo_last_action now s =
     (case s of (db, app) \<Rightarrow>
        if undo_stack app = [] \<or> undo_pointer app < 0
             \<or> int (length (undo_stack app)) \<le> undo_pointer app
        then (db, app)
        else
          (case undo_stack app ! nat (undo_pointer app) of
             CreateOrder oid n \<Rightarrow>
               (undo_create_order db oid, app \<lparr> undo_pointer := undo_pointer app - 1 \<rparr>)
           | DeleteOrder old_data \<Rightarrow>
               (case recreate_order_from_data now db old_data of
                  (old_data', Inl e) \<Rightarrow>
                    (db, app \<lparr> undo_stack :=
                              (undo_stack app) [nat (undo_pointer app) := DeleteOrder old_data'] \<rparr>)
                | (old_data', Inr db') \<Rightarrow>
                    (db', app \<lparr> undo_stack :=
                               (undo_stack app) [nat (undo_pointer app) := DeleteOrder old_data'],
                             undo_pointer := undo_pointer app - 1 \<rparr>))))"

text \<open>
  Deleting one order from the edit dialog (\<^verbatim>\<open>scope == "current"\<close>): the snapshot is
  recorded, then the order is deleted with its line items.
\<close>

definition delete_order_recorded :: "database \<times> app_state \<Rightarrow> order_row \<Rightarrow> database \<times> app_state" where
  "delete_order_recorded s order =
     (case s of (db, app) \<Rightarrow>
        (case serialize_order db order of
           Inl e \<Rightarrow> (db, app)
         | Inr order_data \<Rightarrow>
             (delete_order_current db order,
              record_action app (DeleteOrder (OneOrder order_data)))))"

text \<open>
  Creating an order from the order tab (\<^verbatim>\<open>save_order\<close>). The form holds the selected
  customer (\<open>None\<close> when the combo box is empty or names no customer), the delivery
  date, the chosen items with their amounts, the cadence code with the window, and the
  channel flag; the dates are the values \<^verbatim>\<open>get_date_from_entry\<close> returns.
\<close>

record order_form =
  of_customer :: "nat option"
  of_delivery_date :: date
  of_order_items :: "(item \<times> real) list"
  of_sub_var :: int
  of_from_date :: date
  of_to_date :: date
  of_halbe_var :: bool

text \<open>
  \<^verbatim>\<open>clear_form\<close>: the selection and the item list are emptied and the dates reset, the
  end of the window to 31 December 2025 (day 739616).
\<close>

definition clear_form :: "date \<Rightarrow> order_form" where
  "clear_form today =
     \<lparr> of_customer = None, of_delivery_date = today, of_order_items = [], of_sub_var = 0,
       of_from_date = today, of_to_date = 739616, of_halbe_var = False \<rparr>"

fun create_form_items :: "database \<Rightarrow> nat \<Rightarrow> date \<Rightarrow> (item \<times> real) list \<Rightarrow> database" where
  "create_form_items db oid delivery [] = db"
| "create_form_items db oid delivery ((it, a) # rest) =
     create_form_items (create_orderitem db oid it a delivery) oid delivery rest"

fun create_subscription_orders ::
  "(nat \<Rightarrow> uuid) \<Rightarrow> int \<Rightarrow> (item \<times> real) list \<Rightarrow> database \<Rightarrow> nat \<Rightarrow> new_order list
     \<Rightarrow> py_error + database \<times> nat" where
  "create_subscription_orders uuid4 now its db k [] = Inr (db, k)"
| "create_subscription_orders uuid4 now its db k (future_order_data # rest) =
     (case create_order db future_order_data (uuid4 k) now of
        Inl e \<Rightarrow> Inl e
      | Inr (db1, future_order) \<Rightarrow>
          create_subscription_orders uuid4 now its
            (create_form_items db1 (row_id future_order) (row_delivery_date future_order) its)
            (Suc k) rest)"

datatype save_error = ValueError | Raised py_error

text \<open>
  The body of \<^verbatim>\<open>with db.atomic()\<close>, which is the same in both \<^verbatim>\<open>try\<close> blocks of
  \<^verbatim>\<open>save_order\<close>, together with the action that is recorded after it. \<open>uuid4 k\<close> is the
  \<open>k\<close>-th value \<^verbatim>\<open>uuid.uuid4()\<close> returns in the block, \<open>production_d\<close> the date passed
  to \<^verbatim>\<open>Order.create\<close> as \<^verbatim>\<open>production_date\<close>, which becomes an attribute of the instance.
\<close>

definition save_order_transaction ::
  "(nat \<Rightarrow> uuid) \<Rightarrow> int \<Rightarrow> database \<Rightarrow> nat \<Rightarrow> order_form \<Rightarrow> date
     \<Rightarrow> (py_error + database \<times> action) option" where
  "save_order_transaction uuid4 now db cust form production_d =
     (let seed = \<lparr> no_customer = cust,
                    no_delivery_date = of_delivery_date form,
                    no_production_date = [],
                    no_halbe_channel = of_halbe_var form,
                    no_is_future = False,
                    no_subscription_type = of_sub_var form,
                    no_from_date = (if of_sub_var form \<noteq> 0 then Some (of_from_date form) else None),
                    no_to_date = (if of_sub_var form \<noteq> 0 then Some (of_to_date form) else None) \<rparr>
      in case create_order db seed (uuid4 0) now of
           Inl e \<Rightarrow> Some (Inl e)
         | Inr (db1, order) \<Rightarrow>
             (let db2 = create_form_items db1 (row_id order) (of_delivery_date form)
                          (of_order_items form)
              in if 0 < of_sub_var form then
                   (case generate_for_stored_order db2 order (DateValue production_d) of
                      None \<Rightarrow> None
                    | Some (Inl e) \<Rightarrow> Some (Inl e)
                    | Some (Inr future_orders) \<Rightarrow>
                        (case create_subscription_orders uuid4 now (of_order_items form)
                                db2 1 future_orders of
                           Inl e \<Rightarrow> Some (Inl e)
                         | Inr (db3, k) \<Rightarrow> Some (Inr (db3, CreateOrder (uuid4 0) k))))
                 else Some (Inr (db2, CreateOrder (uuid4 0) 1))))"

text \<open>
  What a \<^verbatim>\<open>try\<close> block of \<^verbatim>\<open>save_order\<close> ends with: the order was saved, the block was
  left by \<^verbatim>\<open>return\<close>, or an exception was caught and shown in an error box.
\<close>

datatype block_outcome = Saved | Returned | Shown save_error

text \<open>
  The first \<^verbatim>\<open>try\<close> block. An exception inside the transaction rolls it back; after a
  successful transaction the action is recorded and the form is cleared.
\<close>

definition save_order_first ::
  "(nat \<Rightarrow> uuid) \<Rightarrow> int \<Rightarrow> date \<Rightarrow> database \<times> app_state \<times> order_form
     \<Rightarrow> (block_outcome \<times> database \<times> app_state \<times> order_form) option" where
  "save_order_first uuid4 now today s =
     (case s of (db, app, form) \<Rightarrow>
        (case of_customer form of
           None \<Rightarrow> Some (Shown ValueError, db, app, form)
         | Some cust \<Rightarrow>
             if of_order_items form = [] then Some (Shown ValueError, db, app, form)
             else
               (let max_days = Max (set (map (\<lambda>(it, a). total_days it) (of_order_items form)));
                    production_d = of_delivery_date form - max_days
                in case save_order_transaction uuid4 now db cust form production_d of
                     None \<Rightarrow> None
                   | Some (Inl e) \<Rightarrow> Some (Shown (Raised e), db, app, form)
                   | Some (Inr (db', a)) \<Rightarrow>
                       Some (Saved, db', record_action app a, clear_form today))))"

text \<open>
  The second \<^verbatim>\<open>try\<close> block, which runs whatever the first one did. It differs from the
  first in the dialog it opens when the production date of the slowest item is a
  Sunday: \<open>use_sunday\<close> is the answer (\<open>None\<close> for Cancel, which leaves the function;
  \<open>Some False\<close> moves the date passed to \<^verbatim>\<open>Order.create\<close> to the Saturday).
\<close>

definition save_order_second ::
  "(nat \<Rightarrow> uuid) \<Rightarrow> bool option \<Rightarrow> int \<Rightarrow> date \<Rightarrow> database \<times> app_state \<times> order_form
     \<Rightarrow> (block_outcome \<times> database \<times> app_state \<times> order_form) option" where
  "save_order_second uuid4 use_sunday now today s =
     (case s of (db, app, form) \<Rightarrow>
        (case of_customer form of
           None \<Rightarrow> Some (Shown ValueError, db, app, form)
         | Some cust \<Rightarrow>
             if of_order_items form = [] then Some (Shown ValueError, db, app, form)
             else
               (let max_days = Max (set (map (\<lambda>(it, a). total_days it) (of_order_items form)));
                    production_d = of_delivery_date form - max_days
                in if weekday production_d = 6 \<and> use_sunday = None
                   then Some (Returned, db, app, form)
                   else
                     (let production_d =
                            (if weekday production_d = 6 \<and> use_sunday = Some False
                             then production_d - 1 else production_d)
                      in case save_order_transaction uuid4 now db cust form production_d of
                           None \<Rightarrow> None
                         | Some (Inl e) \<Rightarrow> Some (Shown (Raised e), db, app, form)
                         | Some (Inr (db', a)) \<Rightarrow>
                             Some (Saved, db', record_action app a, clear_form today)))))"

text \<open>
  \<^verbatim>\<open>save_order\<close>: the two blocks one after the other. \<open>uuid4\<close> and \<open>uuid4_second\<close> are
  the values \<^verbatim>\<open>uuid.uuid4()\<close> returns in the first and in the second block. The result
  has the outcome of each block, the store, the undo log and the form.
\<close>

definition save_order ::
  "(nat \<Rightarrow> uuid) \<Rightarrow> (nat \<Rightarrow> uuid) \<Rightarrow> bool option \<Rightarrow> int \<Rightarrow> date
     \<Rightarrow> database \<times> app_state \<times> order_form
     \<Rightarrow> (block_outcome \<times> block_outcome \<times> database \<times> app_state \<times> order_form) option" where
  "save_order uuid4 uuid4_second use_sunday now today s =
     (case save_order_first uuid4 now today s of
        None \<Rightarrow> None
      | Some (first, s1) \<Rightarrow>
          (case save_order_second uuid4_second use_sunday now today s1 of
             None \<Rightarrow> None
           | Some (second, s2) \<Rightarrow> Some (first, second, s2)))"


section \<open>Production view (database.py, get\_production\_plan)\<close>

text \<open>
  The rows of the query: line items joined with their order and their item (inner
  joins on the two foreign keys), restricted to the window, grouped by production date
  and the item's name, seed quantity and substrate, with the amounts of each group
  summed. (The selected columns \<^verbatim>\<open>transfer_date\<close> and \<^verbatim>\<open>delivery_date\<close> are neither
  grouped nor aggregated and are left out.) A bound that is \<^verbatim>\<open>None\<close> makes the
  comparison in the \<^verbatim>\<open>WHERE\<close> clause unknown for every row. The loop over the days of
  the window that follows the query in the source changes nothing.
\<close>

record plan_row =
  pr_production_date :: date
  pr_item_name :: pystr
  pr_seed_quantity :: real
  pr_substrate :: "pystr option"
  pr_total_amount :: real

definition plan_join :: "database \<Rightarrow> (orderitem_row \<times> item) list" where
  "plan_join db =
     [(li, it). li \<leftarrow> orderitem_table db, r \<leftarrow> order_table db, row_id r = li_order li,
                it \<leftarrow> item_table db, item_id it = li_item li]"

definition plan_key :: "orderitem_row \<times> item \<Rightarrow> date \<times> pystr \<times> real \<times> pystr option" where
  "plan_key j = (li_production_date (fst j), item_name (snd j), seed_quantity (snd j),
                 substrate (snd j))"

text \<open>
  The order of the result. SQLite forms the groups by sorting the joined rows on the
  terms of \<^verbatim>\<open>GROUP BY\<close>, here production date, name, seed quantity and substrate, and
  produces one row per group in that order; \<^verbatim>\<open>.order_by(OrderItem.production_date)\<close>
  asks for the first of these terms only and leaves the groups of one date as they
  are. Dates are stored as \<^verbatim>\<open>YYYY-MM-DD\<close> text and compare as dates, names compare by
  code points (the default collation), and \<^verbatim>\<open>NULL\<close> precedes every value, which is the
  lexicographic order of the keys with \<open>None\<close> below \<open>Some\<close>.
\<close>

definition get_production_plan :: "database \<Rightarrow> date option \<Rightarrow> date option \<Rightarrow> plan_row list" where
  "get_production_plan db start_date end_date =
     (case (start_date, end_date) of
        (Some s, Some e) \<Rightarrow>
          (let rows = filter (\<lambda>j. s \<le> li_production_date (fst j)
                                   \<and> li_production_date (fst j) \<le> e) (plan_join db)
           in map (\<lambda>k. \<lparr> pr_production_date = fst k,
                          pr_item_name = fst (snd k),
                          pr_seed_quantity = fst (snd (snd k)),
                          pr_substrate = snd (snd (snd k)),
                          pr_total_amount =
                            sum_list (map (\<lambda>j. li_amount (fst j))
                                        (filter (\<lambda>j. plan_key j = k) rows)) \<rparr>)
                (sort (remdups (map plan_key rows))))
      | _ \<Rightarrow> [])"

text \<open>
  The join seen from one line item: where the primary keys are unique, a line item is
  joined with the one order and the one item its foreign keys name, and dropped when
  either is missing.
\<close>

definition joined :: "database \<Rightarrow> orderitem_row \<Rightarrow> (orderitem_row \<times> item) list" where
  "joined db li =
     (case find (\<lambda>r. row_id r = li_order li) (order_table db) of
        None \<Rightarrow> []
      | Some r \<Rightarrow>
          (case find (\<lambda>it. item_id it = li_item li) (item_table db) of
             None \<Rightarrow> []
           | Some it \<Rightarrow> [(li, it)]))"

text \<open>
  The production view in the words of the specification. The line items of a window
  are those whose production date lies in it; the query can only show the ones whose
  order and item rows exist. The row of a group carries the production date, the
  item's name, seed quantity and substrate, and the sum of the amounts of the window's
  line items of that date and item. The order asked for is by production date, then by
  item name (code point order).
\<close>

definition plan_line_items :: "database \<Rightarrow> date \<Rightarrow> date \<Rightarrow> orderitem_row list" where
  "plan_line_items db s e =
     filter (\<lambda>li. s \<le> li_production_date li \<and> li_production_date li \<le> e
                 \<and> li_order li \<in> row_id ` set (order_table db)
                 \<and> li_item li \<in> item_id ` set (item_table db))
       (orderitem_table db)"

definition group_row :: "database \<Rightarrow> date \<Rightarrow> date \<Rightarrow> date \<Rightarrow> item \<Rightarrow> plan_row" where
  "group_row db s e d it =
     \<lparr> pr_production_date = d, pr_item_name = item_name it,
       pr_seed_quantity = seed_quantity it, pr_substrate = substrate it,
       pr_total_amount =
         sum_list (map li_amount
           (filter (\<lambda>li. li_production_date li = d \<and> li_item li = item_id it)
              (plan_line_items db s e))) \<rparr>"

fun pystr_less :: "pystr \<Rightarrow> pystr \<Rightarrow> bool" where
  "pystr_less [] [] = False"
| "pystr_less [] (y # ys) = True"
| "pystr_less (x # xs) [] = False"
| "pystr_less (x # xs) (y # ys) = (x < y \<or> (x = y \<and> pystr_less xs ys))"

definition ordered_by_date_then_name :: "plan_row list \<Rightarrow> bool" where
  "ordered_by_date_then_name rows \<longleftrightarrow>
     sorted_wrt (\<lambda>a b. pr_production_date a < pr_production_date b
                    \<or> (pr_production_date a = pr_production_date b
                        \<and> (pr_item_name a = pr_item_name b
                            \<or> pystr_less (pr_item_name a) (pr_item_name b)))) rows"


section \<open>Amount validation (weekly\_view.py save\_changes, main.py validate\_amount)\<close>

text \<open>
  \<^verbatim>\<open>str.strip()\<close> removes the characters for which \<^verbatim>\<open>str.isspace()\<close> holds from both
  ends; \<^verbatim>\<open>replace(',', '.')\<close> turns every comma (44) into a full stop (46).
\<close>

definition isspace :: "nat \<Rightarrow> bool" where
  "isspace c \<longleftrightarrow>
     (9 \<le> c \<and> c \<le> 13) \<or> (28 \<le> c \<and> c \<le> 32) \<or> c = 133 \<or> c = 160 \<or> c = 5760
     \<or> (8192 \<le> c \<and> c \<le> 8202) \<or> c = 8232 \<or> c = 8233 \<or> c = 8239 \<or> c = 8287
     \<or> c = 12288"

definition strip :: "pystr \<Rightarrow> pystr" where
  "strip s = rev (dropWhile isspace (rev (dropWhile isspace s)))"

definition replace_comma :: "pystr \<Rightarrow> pystr" where
  "replace_comma s = map (\<lambda>c. if c = 44 then 46 else c) s"

text \<open>
  The labels of the cadence dropdown, as listed in both validators: the German words
  for weekly and for every two weeks, \<^verbatim>\<open>Alle 3 Wochen\<close>, \<^verbatim>\<open>Alle 4 Wochen\<close> and
  \<^verbatim>\<open>Kein Abonnement\<close>. Code point 246 is the o with diaeresis, 252 the u with diaeresis,
  223 the sharp s and 39 the apostrophe.
\<close>

definition cadence_labels :: "pystr list" where
  "cadence_labels =
     [str ''W'' @ [246] @ str ''chentlich'',
      str ''Zweiw'' @ [246] @ str ''chentlich'',
      str ''Alle 3 Wochen'',
      str ''Alle 4 Wochen'',
      str ''Kein Abonnement'']"

text \<open>The four messages, as the f-strings build them.\<close>

definition label_message :: "pystr \<Rightarrow> pystr \<Rightarrow> pystr" where
  "label_message amount_str item_nm =
     str ''Ung'' @ [252] @ str ''ltige Menge: '' @ [39] @ amount_str @ [39]
       @ str '' scheint ein Abonnementtyp zu sein statt einer Zahl f'' @ [252]
       @ str ''r Artikel '' @ item_nm"

definition not_positive_message :: "pystr \<Rightarrow> pystr" where
  "not_positive_message item_nm =
     str ''Menge muss gr'' @ [246, 223] @ str ''er als 0 sein f'' @ [252]
       @ str ''r Artikel '' @ item_nm"

definition parse_message :: "pystr \<Rightarrow> pystr" where
  "parse_message item_nm =
     str ''Ung'' @ [252] @ str ''ltige Menge f'' @ [252] @ str ''r Artikel '' @ item_nm
       @ str ''. Bitte geben Sie eine Zahl ein.''"

definition unknown_item_message :: "pystr \<Rightarrow> pystr" where
  "unknown_item_message item_nm = str ''Ung'' @ [252] @ str ''ltiger Artikel: '' @ item_nm"

text \<open>
  \<^verbatim>\<open>validate_amount(amount_str, item_name)\<close> of the series editor (main.py). Python's
  \<^verbatim>\<open>float\<close> is a parameter: \<open>pyfloat s\<close> is the number \<^verbatim>\<open>float(s)\<close> returns, or \<open>None\<close>
  when it raises \<^verbatim>\<open>ValueError\<close>. \<open>Inl\<close> carries the message of a rejection.
\<close>

definition validate_amount :: "(pystr \<Rightarrow> real option) \<Rightarrow> pystr \<Rightarrow> pystr \<Rightarrow> pystr + real" where
  "validate_amount pyfloat amount_str item_nm =
     (if amount_str \<in> set cadence_labels then Inl (label_message amount_str item_nm)
      else
        (case pyfloat (replace_comma amount_str) of
           None \<Rightarrow> Inl (parse_message item_nm)
         | Some a \<Rightarrow> if a \<le> 0 then Inl (not_positive_message item_nm) else Inr a))"

text \<open>
  The loop of \<^verbatim>\<open>save_changes\<close> (weekly\_view.py) that gathers \<^verbatim>\<open>order_items_data\<close> from
  the rows of the dialog; a row is the text of its item box and of its amount entry.
  The first rejection shows its message and returns.
\<close>

fun gather_item_data ::
  "(pystr \<Rightarrow> real option) \<Rightarrow> (pystr \<rightharpoonup> item) \<Rightarrow> (pystr \<times> pystr) list
     \<Rightarrow> pystr + (pystr \<times> real) list" where
  "gather_item_data pyfloat app_items [] = Inr []"
| "gather_item_data pyfloat app_items ((item_nm, entry) # rest) =
     (let amount_str = strip entry in
      if amount_str \<in> set cadence_labels then Inl (label_message amount_str item_nm)
      else
        (case pyfloat (replace_comma amount_str) of
           None \<Rightarrow> Inl (parse_message item_nm)
         | Some a \<Rightarrow>
             if a \<le> 0 then Inl (not_positive_message item_nm)
             else if item_nm \<notin> dom app_items then Inl (unknown_item_message item_nm)
             else
               (case gather_item_data pyfloat app_items rest of
                  Inl msg \<Rightarrow> Inl msg
                | Inr items_data \<Rightarrow> Inr ((item_nm, a) # items_data))))"

text \<open>
  \<^verbatim>\<open>save_changes\<close> for an existing order, from the point where the date fields have
  been parsed: the rows are validated, and only then the transaction of
  \<open>save_changes_edit\<close> runs. What the user is shown is a message box.
\<close>

record edit_dialog =
  dlg_new_date :: date
  dlg_from_date :: "date option"
  dlg_to_date :: "date option"
  dlg_sub_var :: int
  dlg_halbe_var :: bool
  dlg_item_rows :: "(pystr \<times> pystr) list"

datatype message_box = ShowError pystr | ShowException py_error | ShowSuccess

definition save_changes ::
  "(pystr \<Rightarrow> real option) \<Rightarrow> (pystr \<rightharpoonup> item) \<Rightarrow> (nat \<Rightarrow> uuid) \<Rightarrow> int \<Rightarrow> database \<Rightarrow> order_row
     \<Rightarrow> edit_dialog \<Rightarrow> scope \<Rightarrow> (database \<times> message_box) option" where
  "save_changes pyfloat app_items uuid4 now db order_obj dlg sc =
     (case gather_item_data pyfloat app_items (dlg_item_rows dlg) of
        Inl msg \<Rightarrow> Some (db, ShowError msg)
      | Inr data \<Rightarrow>
          (case save_changes_edit app_items uuid4 now db order_obj
                  \<lparr> new_date = dlg_new_date dlg, form_from_date = dlg_from_date dlg,
                    form_to_date = dlg_to_date dlg, sub_var = dlg_sub_var dlg,
                    halbe_var = dlg_halbe_var dlg, order_items_data = data \<rparr> sc of
             None \<Rightarrow> None
           | Some (Inl e) \<Rightarrow> Some (db, ShowException e)
           | Some (Inr db') \<Rightarrow> Some (db', ShowSuccess)))"

section \<open>The series editor (main.py, save\_all\_changes)\<close>

text \<open>
  One order row of the series editor: the delivery entry (the parsed date, or the text
  that \<^verbatim>\<open>strptime\<close> rejects), the order the row was opened for (\<^verbatim>\<open>None\<close> for a row added
  in the dialog) and the item rows.
\<close>

record order_row_form =
  rf_delivery :: "pystr + date"
  rf_existing_order :: "order_row option"
  rf_items :: "(pystr \<times> pystr) list"

definition date_format_message :: "pystr \<Rightarrow> pystr" where
  "date_format_message delivery_date_str =
     str ''Ung'' @ [252] @ str ''ltiges Datumsformat: '' @ delivery_date_str
       @ str ''. Verwenden Sie dd.mm.yyyy.''"

text \<open>The inner loop over the item rows of one order row.\<close>

fun gather_row_items ::
  "(pystr \<Rightarrow> real option) \<Rightarrow> (pystr \<rightharpoonup> item) \<Rightarrow> (pystr \<times> pystr) list
     \<Rightarrow> pystr + (pystr \<times> real) list" where
  "gather_row_items pyfloat app_items [] = Inr []"
| "gather_row_items pyfloat app_items ((item_nm, entry) # rest) =
     (case validate_amount pyfloat (strip entry) item_nm of
        Inl result \<Rightarrow> Inl result
      | Inr a \<Rightarrow>
          if item_nm \<notin> dom app_items then Inl (unknown_item_message item_nm)
          else
            (case gather_row_items pyfloat app_items rest of
               Inl msg \<Rightarrow> Inl msg
             | Inr items_data \<Rightarrow> Inr ((item_nm, a) # items_data)))"

text \<open>
  How the loop over the order rows ends: it runs through, it shows a message and
  returns, or an exception leaves it. Both the loop and the \<^verbatim>\<open>return\<close> are inside
  \<^verbatim>\<open>with db.atomic()\<close>: on \<^verbatim>\<open>return\<close> the block is left without an exception and what
  the earlier rows wrote is committed.
\<close>

datatype rows_result =
    RowsDone database "int option" bool "order_snapshot list"
  | RowsReturned pystr database
  | RowsRaised save_error

text \<open>
  The loop \<^verbatim>\<open>for row in order_rows\<close> (lines 1236 to 1331), with the variables it
  carries: \<^verbatim>\<open>subscription_type\<close> (here \<open>sub_type\<close>), \<^verbatim>\<open>subscription_type_changed\<close> and
  \<^verbatim>\<open>edited_orders\<close>.
  The line items it writes are created without \<^verbatim>\<open>production_date\<close>, a column that is
  \<^verbatim>\<open>NOT NULL\<close> and has no default, so the first such \<^verbatim>\<open>OrderItem.create\<close> raises
  \<^verbatim>\<open>IntegrityError\<close>; \<^verbatim>\<open>max\<close> of no items raises \<^verbatim>\<open>ValueError\<close>. The regeneration of
  future orders that follows the loop is reached only when the loop runs through.
\<close>

fun save_all_changes_rows ::
  "(pystr \<Rightarrow> real option) \<Rightarrow> (pystr \<rightharpoonup> item) \<Rightarrow> date \<Rightarrow> date \<Rightarrow> int
     \<Rightarrow> database \<Rightarrow> int option \<Rightarrow> bool \<Rightarrow> order_snapshot list \<Rightarrow> order_row_form list
     \<Rightarrow> rows_result" where
  "save_all_changes_rows pyfloat app_items overall_from overall_to old_subscription_type
       db sub_type subscription_type_changed edited_orders [] =
     RowsDone db sub_type subscription_type_changed edited_orders"
| "save_all_changes_rows pyfloat app_items overall_from overall_to old_subscription_type
       db sub_type subscription_type_changed edited_orders (row # rest) =
     (case rf_delivery row of
        Inl delivery_date_str \<Rightarrow> RowsReturned (date_format_message delivery_date_str) db
      | Inr delivery \<Rightarrow>
          (case gather_row_items pyfloat app_items (rf_items row) of
             Inl result \<Rightarrow> RowsReturned result db
           | Inr data \<Rightarrow>
               (case rf_existing_order row of
                  Some existing_order \<Rightarrow>
                    (case serialize_order db existing_order of
                       Inl e \<Rightarrow> RowsRaised (Raised e)
                     | Inr original_order_data \<Rightarrow>
                         (let existing_order = existing_order
                                \<lparr> row_delivery_date := delivery,
                                  row_from_date := Some overall_from,
                                  row_to_date := Some overall_to \<rparr>;
                              changed = (subscription_type_changed
                                          \<or> Some old_subscription_type \<noteq> sub_type);
                              db = save_order_row db existing_order;
                              db = db \<lparr> orderitem_table :=
                                         filter (\<lambda>oi. li_order oi \<noteq> row_id existing_order)
                                           (orderitem_table db) \<rparr>
                          in if data \<noteq> [] then RowsRaised (Raised IntegrityError)
                             else
                               save_all_changes_rows pyfloat app_items overall_from overall_to
                                 old_subscription_type db
                                 (case sub_type of
                                    None \<Rightarrow> Some (row_subscription_type existing_order)
                                  | Some st \<Rightarrow> Some st)
                                 changed (edited_orders @ [original_order_data]) rest))
                | None \<Rightarrow>
                    (if data = [] then RowsRaised ValueError
                     else RowsRaised (Raised IntegrityError)))))"


section \<open>Example data\<close>

text \<open>
  One item with two germination and four growth days, a line item for it, and a
  second, slower item. 739404 is Monday 2 June 2025; 739403 is the Sunday before and
  739409 the Saturday after.
\<close>

definition kresse :: item where
  "kresse = \<lparr> item_id = 1, item_name = str ''Kresse'', seed_quantity = 10, soaking_days = 0,
              germination_days = 2, growth_days = 4, price = 3, substrate = None \<rparr>"

definition erbse :: item where
  "erbse = \<lparr> item_id = 2, item_name = str ''Erbse'', seed_quantity = 40, soaking_days = 1,
             germination_days = 3, growth_days = 7, price = 4, substrate = Some (str ''Erde'') \<rparr>"

definition kresse_line :: order_item where
  "kresse_line = \<lparr> oi_pk = None, item = kresse, amount = 2 \<rparr>"

text \<open>
  A weekly seed order delivered on Saturday 7 June 2025, window 7 to 14 June, whose
  production-date dict is the one the edit form computes (default allowance): the
  single item is started on Sunday 1 June.
\<close>

definition sunday_seed :: order_obj where
  "sunday_seed =
     \<lparr> customer = 1, delivery_date = 739409, from_date = Some 739409, to_date = Some 739416,
       subscription_type = 1, halbe_channel = False,
       production_date = DictValue (calculate_itemwise_production_dates_default 739409 [kresse_line]),
       order_items = [kresse_line] \<rparr>"

text \<open>A weekly seed order delivered on Monday 2 June 2025 with the window 2 to 30 June.\<close>

definition june_seed :: order_obj where
  "june_seed =
     \<lparr> customer = 1, delivery_date = 739404, from_date = Some 739404, to_date = Some 739432,
       subscription_type = 1, halbe_channel = False, production_date = DateValue 739398,
       order_items = [kresse_line] \<rparr>"

text \<open>
  A weekly order whose delivery date (7 June 2025) was moved past the end of its
  window (24 to 31 May).
\<close>

definition late_seed :: order_obj where
  "late_seed =
     \<lparr> customer = 1, delivery_date = 739409, from_date = Some 739395, to_date = Some 739402,
       subscription_type = 1, halbe_channel = False, production_date = DateValue 739403,
       order_items = [kresse_line] \<rparr>"

text \<open>
  A small store. Customer 1 has a weekly series of \<open>kresse\<close> on Mondays (26 May, 2 June
  and 9 June 2025, window 26 May to 30 June) and a one-off order of both items on
  Monday 9 June; customer 2 has a one-off order of \<open>kresse\<close> on the same day.
\<close>

definition shop_order :: "nat \<Rightarrow> nat \<Rightarrow> date \<Rightarrow> bool \<Rightarrow> order_row" where
  "shop_order n c d fut =
     \<lparr> row_id = n, row_customer = c, row_delivery_date = d, row_from_date = Some 739397,
       row_to_date = Some 739432, row_subscription_type = 1, row_halbe_channel = False,
       row_order_id = 100 + n, row_is_future = fut, row_created_at = 1000 \<rparr>"

definition one_off :: "nat \<Rightarrow> nat \<Rightarrow> date \<Rightarrow> order_row" where
  "one_off n c d =
     \<lparr> row_id = n, row_customer = c, row_delivery_date = d, row_from_date = None,
       row_to_date = None, row_subscription_type = 0, row_halbe_channel = False,
       row_order_id = 100 + n, row_is_future = False, row_created_at = 1000 \<rparr>"

definition shop_line :: "nat \<Rightarrow> nat \<Rightarrow> item \<Rightarrow> real \<Rightarrow> date \<Rightarrow> orderitem_row" where
  "shop_line n oid it a d =
     \<lparr> li_id = n, li_order = oid, li_item = item_id it, li_amount = a,
       li_production_date = fst (line_item_dates d it),
       li_transfer_date = Some (snd (line_item_dates d it)) \<rparr>"

definition shop :: database where
  "shop =
     \<lparr> order_table =
         [shop_order 1 1 739397 False, shop_order 2 1 739404 True, shop_order 3 1 739411 True,
          one_off 4 1 739411, one_off 5 2 739411],
       orderitem_table =
         [shop_line 1 1 kresse 2 739397, shop_line 2 2 kresse 2 739404,
          shop_line 3 3 kresse 2 739411, shop_line 4 4 kresse 1 739411,
          shop_line 5 4 erbse 3 739411, shop_line 6 5 kresse 5 739411],
       item_table = [kresse, erbse] \<rparr>"


text \<open>
  The dict \<^verbatim>\<open>self.app.items\<close> for that store, a supply of UUIDs, and two submissions of
  the edit form for the order of 2 June: one that changes the cadence to every two
  weeks, one that only moves the delivery date by two weeks.
\<close>

definition shop_items :: "pystr \<rightharpoonup> item" where
  "shop_items = [str ''Kresse'' \<mapsto> kresse, str ''Erbse'' \<mapsto> erbse]"

definition shop_uuid4 :: "nat \<Rightarrow> uuid" where
  "shop_uuid4 k = 200 + k"






text \<open>
  A one-off order of nine units of \<open>erbse\<close> for customer 2, entered in the order tab
  for 2 June 2025, and the row that saving it at time 2000 adds to the store \<open>shop\<close>.
\<close>

definition erbse_form :: order_form where
  "erbse_form =
     \<lparr> of_customer = Some 2, of_delivery_date = 739404, of_order_items = [(erbse, 9)],
       of_sub_var = 0, of_from_date = 739400, of_to_date = 739616, of_halbe_var = False \<rparr>"

definition erbse_order :: order_row where
  "erbse_order =
     \<lparr> row_id = 6, row_customer = 2, row_delivery_date = 739404, row_from_date = None,
       row_to_date = None, row_subscription_type = 0, row_halbe_channel = False,
       row_order_id = 200, row_is_future = False, row_created_at = 2000 \<rparr>"

definition empty_log :: app_state where
  "empty_log = \<lparr> undo_stack = [], undo_pointer = - 1 \<rparr>"

text \<open>
  The store after that order has been saved, the store after the creation has been
  undone, and the store after order 4 has then been deleted in the edit dialog and the
  deletion undone at time 3000.
\<close>

definition shop_after_create :: database where
  "shop_after_create =
     \<lparr> order_table = order_table shop @ [erbse_order],
       orderitem_table = orderitem_table shop @ [shop_line 7 6 erbse 9 739404],
       item_table = [kresse, erbse] \<rparr>"



text \<open>
  A store in which \<open>kresse\<close> (two orders delivered on 5 June 2025) and \<open>erbse\<close> (one
  order delivered on 9 June) are all started on Friday 30 May; the same store after
  an order of four units of \<open>kresse\<close> for 5 June has been saved and the creation
  undone (its line item stays) and \<open>erbse\<close> has been deleted in the item view; and
  the rows of the two groups.
\<close>

definition plan_shop :: database where
  "plan_shop =
     \<lparr> order_table = [one_off 1 1 739407, one_off 2 1 739411, one_off 3 2 739407],
       orderitem_table =
         [shop_line 1 1 kresse 2 739407, shop_line 2 2 erbse 3 739411,
          shop_line 3 3 kresse 5 739407],
       item_table = [kresse, erbse] \<rparr>"

definition plan_shop_dangling :: database where
  "plan_shop_dangling =
     \<lparr> order_table = order_table plan_shop,
       orderitem_table = orderitem_table plan_shop @ [shop_line 4 4 kresse 4 739407],
       item_table = [kresse] \<rparr>"

definition kresse_row :: plan_row where
  "kresse_row = \<lparr> pr_production_date = 739401, pr_item_name = str ''Kresse'',
                  pr_seed_quantity = 10, pr_substrate = None, pr_total_amount = 7 \<rparr>"

definition erbse_row :: plan_row where
  "erbse_row = \<lparr> pr_production_date = 739401, pr_item_name = str ''Erbse'',
                 pr_seed_quantity = 40, pr_substrate = Some (str ''Erde''),
                 pr_total_amount = 3 \<rparr>"

text \<open>
  A submission of the series editor for customer 1's weekly series: the row of the
  order of 26 May with all its item rows removed, then the row of the order of 2 June
  whose amount entry holds the cadence label for weekly; and the store that the
  rejected submission leaves behind.
\<close>

definition woechentlich :: pystr where
  "woechentlich = str ''W'' @ [246] @ str ''chentlich''"

definition series_rows :: "order_row_form list" where
  "series_rows =
     [\<lparr> rf_delivery = Inr 739397, rf_existing_order = Some (shop_order 1 1 739397 False),
        rf_items = [] \<rparr>,
      \<lparr> rf_delivery = Inr 739404, rf_existing_order = Some (shop_order 2 1 739404 True),
        rf_items = [(str ''Kresse'', woechentlich)] \<rparr>]"

definition shop_after_rejection :: database where
  "shop_after_rejection =
     \<lparr> order_table = order_table shop,
       orderitem_table =
         [shop_line 2 2 kresse 2 739404, shop_line 3 3 kresse 2 739411,
          shop_line 4 4 kresse 1 739411, shop_line 5 4 erbse 3 739411,
          shop_line 6 5 kresse 5 739411],
       item_table = [kresse, erbse] \<rparr>"

section \<open>Properties of the date rules\<close>

lemma frequencies_positive: "frequencies c = Some d \<Longrightarrow> 0 < d"
  by (auto simp: frequencies_def split: if_splits)

lemma frequencies_codes:
  "c \<in> {1, 2, 3, 4} \<Longrightarrow> frequencies c = Some (7 * c)"
  by (auto simp: frequencies_def)

lemma build_new_order_ok:
  "seed_allow_sunday (production_date order) = Inr a \<Longrightarrow>
   build_new_order order d = Inr (new_order_dict order a d)"
  by (simp add: build_new_order_def)

lemma seed_allow_sunday_defined:
  "attr \<noteq> NoAttribute \<Longrightarrow> \<exists>a. seed_allow_sunday attr = Inr a"
  by (cases attr) (auto simp: seed_allow_sunday_def split: list.splits)

lemma loop_rounds_step:
  fixes delta :: int
  assumes "0 < delta"
  shows "(e - (cur + delta)) div delta + 1 = (e - cur) div delta"
proof -
  have "(e - cur) div delta = ((e - (cur + delta)) + delta) div delta"
    by (simp add: algebra_simps)
  also have "\<dots> = (e - (cur + delta)) div delta + 1"
    using assms by (subst div_add_self2) auto
  finally show ?thesis by simp
qed

lemma div_nonneg_iff_le:
  fixes delta :: int
  assumes "0 < delta"
  shows "0 \<le> (e - cur) div delta \<longleftrightarrow> cur \<le> e"
  using assms by (simp add: pos_imp_zdiv_nonneg_iff)

text \<open>
  The loop returns whenever the step is positive: it runs
  \<open>(e - cur) div delta + 1\<close> rounds (none when \<open>cur\<close> is already past \<open>e\<close>) and
  appends one future order per round.
\<close>

lemma subscription_loop_returns:
  assumes "0 < delta" and "seed_allow_sunday (production_date order) = Inr a"
  shows "subscription_loop order delta e cur acc =
           Some (Inr (acc @ map (\<lambda>k. new_order_dict order a (cur + int k * delta))
                               [0..<nat ((e - cur) div delta + 1)]))"
proof (induction "nat ((e - cur) div delta + 1)" arbitrary: cur acc)
  case 0
  then have "(e - cur) div delta < 0" by simp
  then have "\<not> cur \<le> e"
    using div_nonneg_iff_le[OF assms(1), of e cur] by simp
  then show ?case using 0 by (simp add: subscription_loop.simps)
next
  case (Suc m)
  then have "0 \<le> (e - cur) div delta" by linarith
  then have le: "cur \<le> e"
    using div_nonneg_iff_le[OF assms(1), of e cur] by simp
  have m: "m = nat ((e - (cur + delta)) div delta + 1)"
    using loop_rounds_step[OF assms(1), of e cur] Suc(2) by simp
  have n: "nat ((e - cur) div delta + 1) = Suc m" using Suc(2) by simp
  have "subscription_loop order delta e cur acc =
        subscription_loop order delta e (cur + delta) (acc @ [new_order_dict order a cur])"
    using le by (subst subscription_loop.simps) (simp add: build_new_order_ok[OF assms(2)])
  also have "\<dots> = Some (Inr ((acc @ [new_order_dict order a cur]) @
        map (\<lambda>k. new_order_dict order a (cur + delta + int k * delta)) [0..<m]))"
    using Suc(1)[OF m] m by simp
  also have "(acc @ [new_order_dict order a cur]) @
        map (\<lambda>k. new_order_dict order a (cur + delta + int k * delta)) [0..<m]
     = acc @ map (\<lambda>k. new_order_dict order a (cur + int k * delta)) [0..<Suc m]"
    by (simp add: map_upt_Suc algebra_simps del: upt_Suc)
  finally show ?case using n by simp
qed

text \<open>With an empty window the loop body never runs, whatever the seed carries.\<close>

lemma subscription_loop_past_end:
  "e < cur \<Longrightarrow> subscription_loop order delta e cur acc = Some (Inr acc)"
  by (simp add: subscription_loop.simps)

lemma generate_subscription_orders_window:
  assumes code: "subscription_type order \<in> {1, 2, 3, 4}"
      and window: "from_date order \<noteq> None" "to_date order = Some e"
      and attr: "production_date order \<noteq> NoAttribute"
  shows "\<exists>orders. generate_subscription_orders order = Some (Inr orders)
           \<and> length orders = nat ((e - delivery_date order) div (7 * subscription_type order))
           \<and> map no_delivery_date orders =
               map (\<lambda>k. delivery_date order + int k * (7 * subscription_type order))
                   [1..<Suc (length orders)]
           \<and> (\<forall>i. Suc i < length orders \<longrightarrow>
                  no_delivery_date (orders ! Suc i) - no_delivery_date (orders ! i)
                    = 7 * subscription_type order)
           \<and> (\<forall>d \<in> set orders. no_delivery_date d \<le> e)"
proof -
  let ?days = "7 * subscription_type order"
  let ?D = "delivery_date order"
  let ?n = "nat ((e - ?D) div ?days)"
  have f: "frequencies (subscription_type order) = Some ?days"
    using code by (rule frequencies_codes)
  have pos: "0 < ?days" using f by (rule frequencies_positive)
  obtain a where a: "seed_allow_sunday (production_date order) = Inr a"
    using seed_allow_sunday_defined[OF attr] by blast
  have nz: "subscription_type order \<noteq> 0" using code by auto
  have g: "generate_subscription_orders order =
        subscription_loop order ?days e (?D + ?days) []"
    using nz window f by (auto simp: generate_subscription_orders_def)
  have r: "(e - (?D + ?days)) div ?days + 1 = (e - ?D) div ?days"
    using loop_rounds_step[OF pos] .
  define orders where
    "orders = map (\<lambda>k. new_order_dict order a (?D + ?days + int k * ?days)) [0..<?n]"
  have ret: "generate_subscription_orders order = Some (Inr orders)"
    unfolding g subscription_loop_returns[OF pos a] r orders_def by simp
  have len: "length orders = ?n" by (simp add: orders_def)
  have nth: "no_delivery_date (orders ! i) = ?D + int (Suc i) * ?days" if "i < ?n" for i
    using that by (simp add: orders_def new_order_dict_def algebra_simps)
  have dates: "map no_delivery_date orders =
      map (\<lambda>k. ?D + int k * ?days) [1..<Suc (length orders)]"
  proof (rule nth_equalityI)
    show "length (map no_delivery_date orders) =
        length (map (\<lambda>k. ?D + int k * ?days) [1..<Suc (length orders)])"
      by (simp del: upt_Suc)
  next
    fix i assume "i < length (map no_delivery_date orders)"
    then have i: "i < ?n" by (simp add: len)
    then have "map (\<lambda>k. ?D + int k * ?days) [1..<Suc (length orders)] ! i
        = ?D + int (Suc i) * ?days"
      by (simp add: len del: upt_Suc)
    then show "map no_delivery_date orders ! i =
        map (\<lambda>k. ?D + int k * ?days) [1..<Suc (length orders)] ! i"
      using i nth[OF i] by (simp add: len)
  qed
  have apart: "no_delivery_date (orders ! Suc i) - no_delivery_date (orders ! i) = ?days"
    if "Suc i < length orders" for i
  proof -
    have "Suc i < ?n" "i < ?n" using that len by simp_all
    then show ?thesis using nth[of "Suc i"] nth[of i] by (simp add: algebra_simps)
  qed
  have bound: "no_delivery_date d \<le> e" if mem: "d \<in> set orders" for d
  proof -
    obtain i where i: "i < ?n" and d: "d = orders ! i"
      using mem len unfolding in_set_conv_nth by auto
    have "int (Suc i) \<le> (e - ?D) div ?days" using i by linarith
    moreover have "0 \<le> ?days" using pos by simp
    ultimately have "int (Suc i) * ?days \<le> ((e - ?D) div ?days) * ?days"
      by (rule mult_right_mono)
    also have "\<dots> \<le> e - ?D"
      using div_mult_mod_eq[of "e - ?D" ?days] pos_mod_sign[OF pos, of "e - ?D"] by linarith
    finally show ?thesis using nth[OF i] d by simp
  qed
  show ?thesis using ret len dates apart bound by blast
qed

lemma calculate_itemwise_production_dates_keys:
  "map fst (calculate_itemwise_production_dates D items allow_sunday) = items"
  by (induction items) (simp_all add: Let_def)

lemma calculate_itemwise_production_dates_values:
  "map snd (calculate_itemwise_production_dates D items allow_sunday) =
     map (\<lambda>oi. if \<not> allow_sunday
                     \<and> weekday (D - (germination_days (item oi) + growth_days (item oi))) = 6
                  then D - (germination_days (item oi) + growth_days (item oi)) - 1
                  else D - (germination_days (item oi) + growth_days (item oi))) items"
  by (induction items) (simp_all add: Let_def total_days_def)

lemma sunday_minus_one_is_saturday: "weekday d = 6 \<Longrightarrow> weekday (d - 1) = 5"
  unfolding weekday_def by presburger

subsection \<open>Claims about the date rules\<close>

text \<open>
  C1, as amended. For a seed order with cadence code in \<open>{1, 2, 3, 4}\<close> (7, 14, 21 or 28
  days), a complete window and its computed production dates attached, the expansion
  returns; it returns exactly \<open>max 0 (floor ((to_date - D0) / days))\<close> future orders, so
  none when \<open>to_date\<close> lies before the first occurrence; their delivery dates are
  \<open>D0 + k * days\<close> for \<open>k = 1..n\<close>, consecutive ones exactly \<open>days\<close> apart, none after
  \<open>to_date\<close>. Cadence code 0 yields the empty list.
\<close>

theorem generate_subscription_orders_count_and_dates:
  "(subscription_type order = 0 \<longrightarrow> generate_subscription_orders order = Some (Inr []))
   \<and> (subscription_type order \<in> {1, 2, 3, 4} \<and> from_date order \<noteq> None
        \<and> to_date order = Some e \<and> production_date order \<noteq> NoAttribute \<longrightarrow>
       (\<exists>orders. generate_subscription_orders order = Some (Inr orders)
           \<and> int (length orders)
               = max 0 ((e - delivery_date order) div (7 * subscription_type order))
           \<and> map no_delivery_date orders =
               map (\<lambda>k. delivery_date order + int k * (7 * subscription_type order))
                   [1..<Suc (length orders)]
           \<and> (\<forall>i. Suc i < length orders \<longrightarrow>
                  no_delivery_date (orders ! Suc i) - no_delivery_date (orders ! i)
                    = 7 * subscription_type order)
           \<and> (\<forall>d \<in> set orders. no_delivery_date d \<le> e)))"
proof (intro conjI impI)
  assume "subscription_type order = 0"
  then show "generate_subscription_orders order = Some (Inr [])"
    by (simp add: generate_subscription_orders_def)
next
  assume h: "subscription_type order \<in> {1, 2, 3, 4} \<and> from_date order \<noteq> None
        \<and> to_date order = Some e \<and> production_date order \<noteq> NoAttribute"
  then obtain orders where o: "generate_subscription_orders order = Some (Inr orders)"
      "length orders = nat ((e - delivery_date order) div (7 * subscription_type order))"
      "map no_delivery_date orders =
               map (\<lambda>k. delivery_date order + int k * (7 * subscription_type order))
                   [1..<Suc (length orders)]"
      "\<forall>i. Suc i < length orders \<longrightarrow>
                  no_delivery_date (orders ! Suc i) - no_delivery_date (orders ! i)
                    = 7 * subscription_type order"
      "\<forall>d \<in> set orders. no_delivery_date d \<le> e"
    using generate_subscription_orders_window[of order e] by blast
  have "int (length orders) = max 0 ((e - delivery_date order) div (7 * subscription_type order))"
    using o(2) by simp
  then show "\<exists>orders. generate_subscription_orders order = Some (Inr orders)
           \<and> int (length orders)
               = max 0 ((e - delivery_date order) div (7 * subscription_type order))
           \<and> map no_delivery_date orders =
               map (\<lambda>k. delivery_date order + int k * (7 * subscription_type order))
                   [1..<Suc (length orders)]
           \<and> (\<forall>i. Suc i < length orders \<longrightarrow>
                  no_delivery_date (orders ! Suc i) - no_delivery_date (orders ! i)
                    = 7 * subscription_type order)
           \<and> (\<forall>d \<in> set orders. no_delivery_date d \<le> e)"
    using o by blast
qed

theorem generate_subscription_orders_count_and_dates_witness:
  "subscription_type june_seed \<in> {1, 2, 3, 4} \<and> from_date june_seed \<noteq> None
   \<and> to_date june_seed = Some 739432 \<and> production_date june_seed \<noteq> NoAttribute
   \<and> (\<exists>orders. generate_subscription_orders june_seed = Some (Inr orders)
         \<and> length orders = 4
         \<and> map no_delivery_date orders = [739411, 739418, 739425, 739432])"
  using generate_subscription_orders_count_and_dates [of june_seed 739432]
  by (auto simp: june_seed_def upt_conv_Cons)

text \<open>
  C1 as stated fails where the window ends before the seed's delivery date: the
  expansion returns no order, while \<open>floor ((to_date - D0) / 7)\<close> is \<open>-1\<close>.
\<close>

theorem generate_subscription_orders_count_counterexample:
  "generate_subscription_orders late_seed = Some (Inr [])
   \<and> int (length ([] :: new_order list))
        \<noteq> (the (to_date late_seed) - delivery_date late_seed) div 7"
  by (simp add: late_seed_def generate_subscription_orders_def frequencies_def
      subscription_loop.simps)

text \<open>
  C3. The generator reads the seed's stored production dates, but derives the opposite
  allowance from them: a seed whose first production date is a Sunday (so Sunday was
  allowed for it) yields \<^verbatim>\<open>allow_sunday = False\<close>. At the seed \<open>sunday_seed\<close>, produced on
  Sunday 1 June, the one future order (14 June) has its production date moved from
  Sunday 8 June to Saturday 7 June.
\<close>

theorem sunday_seed_future_orders_avoid_sunday:
  "production_date sunday_seed = DictValue [(kresse_line, 739403)]
   \<and> weekday 739403 = 6
   \<and> generate_subscription_orders sunday_seed =
       Some (Inr [\<lparr> no_customer = 1, no_delivery_date = 739416,
                    no_production_date = [(kresse_line, 739409)],
                    no_halbe_channel = False, no_is_future = True, no_subscription_type = 1,
                    no_from_date = Some 739409, no_to_date = Some 739416 \<rparr>])
   \<and> weekday 739409 = 5
   \<and> calculate_itemwise_production_dates 739416 [kresse_line] True = [(kresse_line, 739410)]"
  by (simp add: sunday_seed_def generate_subscription_orders_def frequencies_def
      subscription_loop.simps build_new_order_def seed_allow_sunday_def new_order_dict_def
      calculate_itemwise_production_dates_default_def total_days_def weekday_def
      kresse_line_def kresse_def)

text \<open>
  C4, as amended. For every delivery date \<open>D\<close> and item with \<open>g\<close> germination and \<open>w\<close>
  growth days the computation returns \<open>D - (g + w)\<close>; when that day is a Sunday and the
  caller passes \<^verbatim>\<open>allow_sunday=False\<close> it returns \<open>D - (g + w) - 1\<close>, a Saturday. The
  flag defaults to \<^verbatim>\<open>True\<close>: a call that does not pass it never moves a date. The
  transfer date stored on a line item is its production date plus \<open>g\<close>.
\<close>

theorem production_and_transfer_dates:
  "map fst (calculate_itemwise_production_dates D items allow_sunday) = items
   \<and> map snd (calculate_itemwise_production_dates D items allow_sunday) =
       map (\<lambda>oi. if \<not> allow_sunday
                       \<and> weekday (D - (germination_days (item oi) + growth_days (item oi))) = 6
                    then D - (germination_days (item oi) + growth_days (item oi)) - 1
                    else D - (germination_days (item oi) + growth_days (item oi))) items
   \<and> (weekday d = 6 \<longrightarrow> weekday (d - 1) = 5)
   \<and> map snd (calculate_itemwise_production_dates_default D items) =
       map (\<lambda>oi. D - (germination_days (item oi) + growth_days (item oi))) items
   \<and> fst (line_item_dates D i) = D - (germination_days i + growth_days i)
   \<and> snd (line_item_dates D i) = fst (line_item_dates D i) + germination_days i"
  using calculate_itemwise_production_dates_values [of D items True]
  by (simp add: calculate_itemwise_production_dates_keys
      calculate_itemwise_production_dates_values sunday_minus_one_is_saturday
      calculate_itemwise_production_dates_default_def line_item_dates_def Let_def)

theorem production_and_transfer_dates_witness:
  "weekday 739403 = 6 \<and> weekday (739403 - 1) = 5
   \<and> map snd (calculate_itemwise_production_dates 739409 [kresse_line] False) = [739402]
   \<and> map snd (calculate_itemwise_production_dates 739409 [kresse_line] True) = [739403]
   \<and> line_item_dates 739409 kresse = (739403, 739405)"
  using production_and_transfer_dates [of 739409 "[kresse_line]" False 739403 kresse]
    production_and_transfer_dates [of 739409 "[kresse_line]" True 739403 kresse]
  by (simp add: weekday_def kresse_line_def kresse_def line_item_dates_def)

text \<open>
  C4 as stated has Sunday avoidance on by default. A call with the default flag keeps
  the Sunday: for a delivery on Saturday 7 June 2025 and six days in total it returns
  Sunday 1 June, not Saturday 31 May.
\<close>

theorem default_call_keeps_sunday_counterexample:
  "calculate_itemwise_production_dates_default 739409 [kresse_line] = [(kresse_line, 739403)]
   \<and> weekday 739403 = 6
   \<and> (739403 :: int) \<noteq> 739409 - (germination_days kresse + growth_days kresse) - 1"
  by (simp add: calculate_itemwise_production_dates_default_def total_days_def weekday_def
      kresse_line_def kresse_def)

text \<open>
  C10. An order whose \<^verbatim>\<open>from_date\<close> or \<^verbatim>\<open>to_date\<close> is missing expands to the empty
  list, whatever its cadence code.
\<close>

theorem generate_subscription_orders_incomplete_window:
  "from_date order = None \<or> to_date order = None \<Longrightarrow>
   generate_subscription_orders order = Some (Inr [])"
  by (auto simp: generate_subscription_orders_def)

theorem generate_subscription_orders_incomplete_window_witness:
  "(from_date (june_seed\<lparr>from_date := None\<rparr>) = None
      \<or> to_date (june_seed\<lparr>from_date := None\<rparr>) = None)
   \<and> subscription_type (june_seed\<lparr>from_date := None\<rparr>) = 1
   \<and> generate_subscription_orders (june_seed\<lparr>from_date := None\<rparr>) = Some (Inr [])"
  using generate_subscription_orders_incomplete_window [of "june_seed\<lparr>from_date := None\<rparr>"]
  by (simp add: june_seed_def)

section \<open>Properties of the scoped delete\<close>

lemma get_item_Inr: "get_item db i = Inr it \<Longrightarrow> item_id it = i \<and> it \<in> set (item_table db)"
  by (auto simp: get_item_def find_Some_iff split: option.splits)

lemma get_item_total:
  "i \<in> item_id ` set (item_table db) \<Longrightarrow> \<exists>it. get_item db i = Inr it"
  by (auto simp: get_item_def find_None_iff split: option.splits)


lemma item_id_set_total:
  "\<forall>li \<in> set lis. li_item li \<in> item_id ` set (item_table db) \<Longrightarrow> \<exists>s. item_id_set db lis = Inr s"
proof (induction lis)
  case Nil
  then show ?case by simp
next
  case (Cons li lis)
  then obtain it s where "get_item db (li_item li) = Inr it" "item_id_set db lis = Inr s"
    using get_item_total[of "li_item li" db] by auto
  then show ?case by simp
qed


lemma matching_orders_total:
  assumes "\<forall>li \<in> set (orderitem_table db). li_item li \<in> item_id ` set (item_table db)"
  shows "\<exists>ms. matching_orders db wd cur rows = Inr ms"
proof (induction rows)
  case Nil
  then show ?case by simp
next
  case (Cons r rows)
  have "\<forall>li \<in> set (order_items_of db (row_id r)). li_item li \<in> item_id ` set (item_table db)"
    using assms by (simp add: order_items_of_def)
  then obtain s where "item_id_set db (order_items_of db (row_id r)) = Inr s"
    using item_id_set_total by blast
  then show ?case using Cons by auto
qed












lemmas shop_defs = shop_def shop_order_def one_off_def shop_line_def kresse_def erbse_def
  line_item_dates_def Let_def



section \<open>Properties of the scoped edit\<close>

lemma subscription_loop_raises:
  assumes "seed_allow_sunday (production_date order) = Inl err"
  shows "subscription_loop order delta e cur acc =
           Some (if cur \<le> e then Inl err else Inr acc)"
  using assms by (subst subscription_loop.simps) (simp add: build_new_order_def)


lemma generate_subscription_orders_after_seed:
  assumes "generate_subscription_orders order = Some (Inr orders)" and "d \<in> set orders"
  shows "delivery_date order < no_delivery_date d"
proof (cases "subscription_type order = 0 \<or> from_date order = None \<or> to_date order = None")
  case True
  then show ?thesis using assms by (auto simp: generate_subscription_orders_def)
next
  case False
  then obtain e where e: "to_date order = Some e" by auto
  show ?thesis
  proof (cases "frequencies (subscription_type order)")
    case None
    then show ?thesis using False assms by (auto simp: generate_subscription_orders_def)
  next
    case (Some delta)
    then have pos: "0 < delta" by (rule frequencies_positive)
    have g: "generate_subscription_orders order =
        subscription_loop order delta e (delivery_date order + delta) []"
      using False Some e by (auto simp: generate_subscription_orders_def)
    show ?thesis
    proof (cases "seed_allow_sunday (production_date order)")
      case (Inl err)
      then show ?thesis using assms unfolding g
        by (simp add: subscription_loop_raises split: if_splits)
    next
      case (Inr a)
      then have "orders = map (\<lambda>k. new_order_dict order a (delivery_date order + delta + int k * delta))
                   [0..<nat ((e - (delivery_date order + delta)) div delta + 1)]"
        using assms(1) unfolding g by (simp add: subscription_loop_returns[OF pos])
      then have "\<exists>k. no_delivery_date d = delivery_date order + delta + int k * delta"
        using assms(2) by (auto simp: new_order_dict_def)
      then obtain k where "no_delivery_date d = delivery_date order + delta + int k * delta"
        by blast
      moreover have "0 \<le> int k * delta" using pos by simp
      ultimately show ?thesis using pos by linarith
    qed
  qed
qed


lemma generate_for_stored_order_after:
  assumes "generate_for_stored_order db r attr = Some (Inr orders)" and "d \<in> set orders"
  shows "row_delivery_date r < no_delivery_date d"
proof (cases "resolve_items db (order_items_of db (row_id r))")
  case (Inr ois)
  then show ?thesis
    using assms generate_subscription_orders_after_seed
    by (fastforce simp: generate_for_stored_order_def)
next
  case (Inl e)
  then show ?thesis
    using assms
    by (auto simp: generate_for_stored_order_def split: sum.splits list.splits option.splits)
qed

lemma fold_max_ge: "(a::nat) \<le> fold max ids a"
proof (induction ids arbitrary: a)
  case Nil
  then show ?case by simp
next
  case (Cons x ids)
  have "a \<le> max x a" by simp
  also have "\<dots> \<le> fold max ids (max x a)" by (rule Cons)
  finally show ?case by simp
qed

lemma fold_max_member: "(x::nat) \<in> set ids \<Longrightarrow> x \<le> fold max ids a"
proof (induction ids arbitrary: a)
  case Nil
  then show ?case by simp
next
  case (Cons y ids)
  show ?case
  proof (cases "x = y")
    case True
    have "x \<le> max y a" using True by simp
    also have "\<dots> \<le> fold max ids (max y a)" by (rule fold_max_ge)
    finally show ?thesis by simp
  next
    case False
    then show ?thesis using Cons by simp
  qed
qed

lemma next_id_fresh: "next_id ids \<notin> set ids"
  using fold_max_member[of "next_id ids" ids 0] by (auto simp: next_id_def)

lemma create_orderitem_frame:
  "order_table (create_orderitem db oid it a d) = order_table db"
  "item_table (create_orderitem db oid it a d) = item_table db"
  "k \<noteq> oid \<Longrightarrow> order_items_of (create_orderitem db oid it a d) k = order_items_of db k"
  by (simp_all add: create_orderitem_def order_items_of_def)










lemma should_detach_this_and_future [simp]: "should_detach ThisAndFuture a b c d = False"
  by (simp add: should_detach_def)



lemmas edit_defs = save_changes_edit_def should_detach_def future_orders_to_delete_def
  save_order_row_def create_orderitem_def create_order_def next_id_def order_items_of_def
  get_item_def delete_instance_recursive_def generate_for_stored_order_def
  generate_subscription_orders_def frequencies_def subscription_loop.simps build_new_order_def
  seed_allow_sunday_def new_order_dict_def calculate_itemwise_production_dates_default_def
  total_days_def weekday_def shop_items_def shop_uuid4_def str_def









section \<open>Properties of the undo log\<close>

lemma serialize_items_total:
  assumes "\<forall>li \<in> set lis. li_item li \<in> item_id ` set (item_table db)"
  shows "serialize_items db lis = Inr (map (\<lambda>li. (li_id li, li_item li, li_amount li)) lis)"
  using assms
proof (induction lis)
  case Nil
  then show ?case by simp
next
  case (Cons li lis)
  then obtain it where it: "get_item db (li_item li) = Inr it"
    using get_item_total[of "li_item li" db] by auto
  then have "item_id it = li_item li" using get_item_Inr by blast
  then show ?case using Cons it by simp
qed

lemma recreate_items_total:
  assumes "\<forall>x \<in> set xs. fst (snd x) \<in> item_id ` set (item_table db)"
  shows "\<exists>db'. recreate_items db oid d xs = Inr db'
           \<and> order_table db' = order_table db \<and> item_table db' = item_table db
           \<and> (\<exists>L. orderitem_table db' = orderitem_table db @ L
                 \<and> (\<forall>li \<in> set L. li_order li = oid)
                 \<and> map (\<lambda>li. (li_item li, li_amount li)) L = map snd xs)"
  using assms
proof (induction xs arbitrary: db)
  case Nil
  then show ?case by simp
next
  case (Cons x xs)
  obtain old iid a where x: "x = (old, iid, a)" by (cases x)
  then obtain it where it: "get_item db iid = Inr it"
    using Cons.prems get_item_total[of iid db] by auto
  then have iid: "item_id it = iid" using get_item_Inr by blast
  let ?db1 = "create_orderitem db oid it a d"
  have "\<forall>x \<in> set xs. fst (snd x) \<in> item_id ` set (item_table ?db1)"
    using Cons.prems by (simp add: create_orderitem_frame)
  from Cons.IH[OF this] obtain db' L where
    r: "recreate_items ?db1 oid d xs = Inr db'"
    and t: "order_table db' = order_table ?db1" "item_table db' = item_table ?db1"
    and L: "orderitem_table db' = orderitem_table ?db1 @ L" "\<forall>li \<in> set L. li_order li = oid"
       "map (\<lambda>li. (li_item li, li_amount li)) L = map snd xs"
    by blast
  obtain new where new: "orderitem_table ?db1 = orderitem_table db @ [new]"
     "li_order new = oid" "li_item new = iid" "li_amount new = a"
    by (simp add: create_orderitem_def iid)
  have "recreate_items db oid d (x # xs) = Inr db'" using x it r by simp
  moreover have "orderitem_table db' = orderitem_table db @ (new # L)" using L(1) new(1) by simp
  moreover have "\<forall>li \<in> set (new # L). li_order li = oid" using L(2) new(2) by simp
  moreover have "map (\<lambda>li. (li_item li, li_amount li)) (new # L) = map snd (x # xs)"
    using L(3) new x by simp
  ultimately show ?case using t by (auto simp: create_orderitem_frame)
qed

lemma record_action_points_at:
  "undo_stack (record_action app a) \<noteq> []
   \<and> 0 \<le> undo_pointer (record_action app a)
   \<and> undo_pointer (record_action app a) < int (length (undo_stack (record_action app a)))
   \<and> undo_stack (record_action app a) ! nat (undo_pointer (record_action app a)) = a"
proof -
  define s where "s = (if undo_pointer app < int (length (undo_stack app)) - 1
                   then take (nat (undo_pointer app + 1)) (undo_stack app)
                   else undo_stack app) @ [a]"
  define t where "t = (if max_undo_steps < length s then tl s else s)"
  have ra: "record_action app a = \<lparr> undo_stack = t, undo_pointer = int (length t) - 1 \<rparr>"
    by (simp add: record_action_def Let_def s_def t_def)
  have s: "s \<noteq> []" "last s = a" by (simp_all add: s_def)
  have t: "t \<noteq> [] \<and> last t = a"
  proof (cases "max_undo_steps < length s")
    case True
    then have "2 \<le> length s" by (simp add: max_undo_steps_def)
    then have "tl s \<noteq> []" by (cases s; cases "tl s") auto
    then show ?thesis using True s by (simp add: t_def last_tl)
  next
    case False
    then show ?thesis using s by (simp add: t_def)
  qed
  then have "t ! nat (int (length t) - 1) = a"
    by (metis last_conv_nth nat_int of_nat_1 of_nat_diff length_greater_0_conv Suc_leI One_nat_def nat_minus_as_int)
  then show ?thesis using t by (simp add: ra)
qed

lemma find_None_order_id:
  "find (\<lambda>r. row_order_id r = u) rows = None \<longleftrightarrow> u \<notin> row_order_id ` set rows"
  by (auto simp: find_None_iff)

text \<open>
  In a store with unique keys in which every line item belongs to a stored order,
  deleting an order in the edit dialog and undoing the deletion brings the order back
  with its field values other than the row id and \<^verbatim>\<open>created_at\<close>, and with line items
  of the same item/amount pairs.
\<close>

lemma delete_then_undo_restores:
  assumes X: "X \<in> set (order_table db)"
      and ids: "distinct (map row_id (order_table db))"
      and uuids: "distinct (map row_order_id (order_table db))"
      and owned: "\<forall>li \<in> set (orderitem_table db). li_order li \<in> row_id ` set (order_table db)"
      and items: "\<forall>li \<in> set (order_items_of db (row_id X)). li_item li \<in> item_id ` set (item_table db)"
  shows "\<exists>db2 app2 n.
           undo_last_action now (delete_order_recorded (db, app) X) = (db2, app2)
         \<and> X \<notin> set (order_table (fst (delete_order_recorded (db, app) X)))
         \<and> order_table db2 =
             filter (\<lambda>r. row_id r \<noteq> row_id X) (order_table db)
               @ [X \<lparr> row_id := n, row_created_at := now \<rparr>]
         \<and> map (\<lambda>li. (li_item li, li_amount li)) (order_items_of db2 n)
             = map (\<lambda>li. (li_item li, li_amount li)) (order_items_of db (row_id X))"
proof -
  let ?lis = "order_items_of db (row_id X)"
  define snap where "snap =
     \<lparr> snap_id = row_id X, snap_order_id = row_order_id X, snap_customer_id = row_customer X,
       snap_delivery_date = row_delivery_date X, snap_from_date = row_from_date X,
       snap_to_date = row_to_date X, snap_subscription_type = row_subscription_type X,
       snap_halbe_channel = row_halbe_channel X, snap_is_future = row_is_future X,
       snap_order_items = map (\<lambda>li. (li_id li, li_item li, li_amount li)) ?lis \<rparr>"
  have ser: "serialize_order db X = Inr snap"
    by (simp add: serialize_order_def serialize_items_total[OF items] snap_def)
  define db1 where "db1 = delete_instance_recursive db (row_id X)"
  define app1 where "app1 = record_action app (DeleteOrder (OneOrder snap))"
  have del: "delete_order_recorded (db, app) X = (db1, app1)"
    by (simp add: delete_order_recorded_def ser delete_order_current_def db1_def app1_def)
  have t1: "order_table db1 = filter (\<lambda>r. row_id r \<noteq> row_id X) (order_table db)"
    and o1: "orderitem_table db1 = filter (\<lambda>li. li_order li \<noteq> row_id X) (orderitem_table db)"
    and i1: "item_table db1 = item_table db"
    by (simp_all add: db1_def delete_instance_recursive_def)
  have Xgone: "X \<notin> set (order_table db1)" by (simp add: t1)
  have nouuid: "row_order_id X \<notin> row_order_id ` set (order_table db1)"
  proof
    assume "row_order_id X \<in> row_order_id ` set (order_table db1)"
    then obtain r where r: "r \<in> set (order_table db)" "row_id r \<noteq> row_id X"
        "row_order_id r = row_order_id X"
      by (auto simp: t1)
    then have "r = X" using uuids X by (meson distinct_map inj_onD)
    then show False using r(2) by simp
  qed
  define n where "n = next_id (map row_id (order_table db1))"
  have nfresh: "n \<notin> row_id ` set (order_table db1)"
    using next_id_fresh[of "map row_id (order_table db1)"] by (simp add: n_def)
  define r where "r = X \<lparr> row_id := n, row_created_at := now \<rparr>"
  define db1' where "db1' = db1 \<lparr> order_table := order_table db1 @ [r] \<rparr>"
  have rdef: "r = \<lparr> row_id = next_id (map row_id (order_table db1)),
                         row_customer = snap_customer_id snap,
                         row_delivery_date = snap_delivery_date snap,
                         row_from_date = snap_from_date snap,
                         row_to_date = snap_to_date snap,
                         row_subscription_type = snap_subscription_type snap,
                         row_halbe_channel = snap_halbe_channel snap,
                         row_order_id = snap_order_id snap,
                         row_is_future = snap_is_future snap,
                         row_created_at = now \<rparr>"
    by (simp add: r_def snap_def n_def)
  have rec0: "recreate_order now db1 snap =
        recreate_items (db1 \<lparr> order_table := order_table db1 @ [r] \<rparr>) (row_id r)
          (row_delivery_date r) (snap_order_items snap)"
    using nouuid unfolding recreate_order_def Let_def rdef
    by (simp add: find_None_order_id[symmetric] snap_def)
  have rec: "recreate_order now db1 snap =
        recreate_items db1' n (row_delivery_date X) (snap_order_items snap)"
    unfolding rec0 db1'_def by (simp add: r_def)
  have "\<forall>x \<in> set (snap_order_items snap). fst (snd x) \<in> item_id ` set (item_table db1')"
    using items by (auto simp: snap_def db1'_def i1)
  from recreate_items_total[OF this, of n "row_delivery_date X"]
  obtain db2 L where ri: "recreate_items db1' n (row_delivery_date X) (snap_order_items snap) = Inr db2"
    and t2: "order_table db2 = order_table db1'"
    and L: "orderitem_table db2 = orderitem_table db1' @ L" "\<forall>li \<in> set L. li_order li = n"
       "map (\<lambda>li. (li_item li, li_amount li)) L = map snd (snap_order_items snap)"
    by blast
  have noorph: "filter (\<lambda>li. li_order li = n) (orderitem_table db1) = []"
  proof -
    have "li_order li \<noteq> n" if "li \<in> set (orderitem_table db1)" for li
    proof -
      have a: "li \<in> set (orderitem_table db)" "li_order li \<noteq> row_id X" using that by (auto simp: o1)
      then have "li_order li \<in> row_id ` set (order_table db1)" using owned by (auto simp: t1)
      then show ?thesis using nfresh by auto
    qed
    then show ?thesis by (auto simp: filter_empty_conv)
  qed
  have lines: "order_items_of db2 n = L"
    using L(1,2) noorph by (simp add: order_items_of_def db1'_def)
  have pairs: "map (\<lambda>li. (li_item li, li_amount li)) (order_items_of db2 n)
             = map (\<lambda>li. (li_item li, li_amount li)) ?lis"
    using L(3) by (simp add: lines snap_def comp_def)
  note pa = record_action_points_at[of app "DeleteOrder (OneOrder snap)"]
  have "\<exists>app2. undo_last_action now (db1, app1) = (db2, app2)"
    using pa rec ri
    by (simp add: undo_last_action_def app1_def[symmetric] recreate_order_from_data_def)
  then obtain app2 where u: "undo_last_action now (db1, app1) = (db2, app2)" by blast
  have "order_table db2 = filter (\<lambda>r. row_id r \<noteq> row_id X) (order_table db) @ [r]"
    using t2 by (simp add: db1'_def t1)
  then show ?thesis using u del Xgone pairs unfolding r_def by auto
qed

text \<open>Undoing a creation never touches the line items.\<close>

lemma undo_create_order_keeps_line_items:
  "orderitem_table (undo_create_order db oid) = orderitem_table db"
  by (simp add: undo_create_order_def split: option.splits)

lemmas undo_defs = undo_last_action_def delete_order_recorded_def serialize_order_def
  delete_order_current_def record_action_def max_undo_steps_def recreate_order_from_data_def
  recreate_order_def undo_create_order_def save_order_def save_order_first_def
  save_order_second_def save_order_transaction_def clear_form_def empty_log_def


lemma save_order_second_block_saves:
  "save_order (\<lambda>k. 101) shop_uuid4 None 2000 739400 (shop, empty_log, erbse_form)
     = Some (Shown (Raised IntegrityError), Saved, shop_after_create,
             \<lparr> undo_stack = [CreateOrder 200 1], undo_pointer = 0 \<rparr>, clear_form 739400)"
  by (simp add: undo_defs edit_defs shop_defs erbse_form_def shop_after_create_def
      erbse_order_def shop_uuid4_def weekday_def)




section \<open>Properties of the production view\<close>

lemma pystr_less_iff: "pystr_less xs ys \<longleftrightarrow> xs < ys"
  by (induction xs ys rule: pystr_less.induct) auto

lemma concat_map_if_absent:
  "a \<notin> f ` set xs \<Longrightarrow> concat (map (\<lambda>x. if f x = a then g x else []) xs) = []"
  by (induction xs) auto

lemma concat_map_if_distinct:
  "distinct (map f xs) \<Longrightarrow>
   concat (map (\<lambda>x. if f x = a then g x else []) xs) =
     (case find (\<lambda>x. f x = a) xs of None \<Rightarrow> [] | Some x \<Rightarrow> g x)"
proof (induction xs)
  case Nil
  then show ?case by simp
next
  case (Cons x xs)
  show ?case
  proof (cases "f x = a")
    case True
    then have "a \<notin> f ` set xs" using Cons.prems by auto
    then show ?thesis using True by (simp add: concat_map_if_absent)
  next
    case False
    then show ?thesis using Cons by simp
  qed
qed

lemma plan_join_joined:
  assumes "distinct (map row_id (order_table db))" and "distinct (map item_id (item_table db))"
  shows "plan_join db = concat (map (joined db) (orderitem_table db))"
proof -
  have "concat (map (\<lambda>r. if row_id r = li_order li
                          then concat (map (\<lambda>it. if item_id it = li_item li then [(li, it)] else [])
                                        (item_table db))
                          else []) (order_table db)) = joined db li" for li
    unfolding joined_def
    by (simp add: concat_map_if_distinct[OF assms(1)] concat_map_if_distinct[OF assms(2)]
        split: option.splits)
  then show ?thesis by (simp add: plan_join_def)
qed

lemma sum_list_filter_concat:
  "sum_list (map f (filter P (concat (map h xs))))
     = sum_list (map (\<lambda>x. sum_list (map f (filter P (h x)))) xs)"
  by (induction xs) auto

lemma sum_list_filter_if:
  "sum_list (map f (filter Q xs)) = sum_list (map (\<lambda>x. if Q x then f x else (0::real)) xs)"
  by (induction xs) auto

lemma find_distinct_Some:
  "distinct (map f xs) \<Longrightarrow> find (\<lambda>x. f x = a) xs = Some x \<longleftrightarrow> x \<in> set xs \<and> f x = a"
  by (induction xs) (auto simp: image_iff)

lemma find_key_None: "find (\<lambda>x. f x = a) xs = None \<longleftrightarrow> a \<notin> f ` set xs"
  by (auto simp: find_None_iff)

lemma plan_join_set:
  "(li, it) \<in> set (plan_join db) \<longleftrightarrow>
     li \<in> set (orderitem_table db) \<and> li_order li \<in> row_id ` set (order_table db)
     \<and> it \<in> set (item_table db) \<and> item_id it = li_item li"
  by (force simp: plan_join_def image_iff)

lemma same_item_iff:
  assumes ids: "distinct (map item_id (item_table db))"
      and names: "distinct (map item_name (item_table db))"
      and it: "it \<in> set (item_table db)" and it0: "it0 \<in> set (item_table db)"
  shows "item_name it = item_name it0 \<and> seed_quantity it = seed_quantity it0
           \<and> substrate it = substrate it0 \<longleftrightarrow> item_id it = item_id it0"
proof
  assume "item_name it = item_name it0 \<and> seed_quantity it = seed_quantity it0
           \<and> substrate it = substrate it0"
  then have "it = it0" using names it it0 by (meson distinct_map inj_onD)
  then show "item_id it = item_id it0" by simp
next
  assume "item_id it = item_id it0"
  then have "it = it0" using ids it it0 by (meson distinct_map inj_onD)
  then show "item_name it = item_name it0 \<and> seed_quantity it = seed_quantity it0
           \<and> substrate it = substrate it0" by simp
qed

lemma joined_total:
  assumes orders: "distinct (map row_id (order_table db))"
      and ids: "distinct (map item_id (item_table db))"
      and names: "distinct (map item_name (item_table db))"
      and it0: "it0 \<in> set (item_table db)"
  shows "sum_list (map (\<lambda>j. li_amount (fst j))
           (filter (\<lambda>j. (s \<le> li_production_date (fst j) \<and> li_production_date (fst j) \<le> e)
                        \<and> plan_key j = (d, item_name it0, seed_quantity it0, substrate it0))
              (joined db li)))
         = (if (s \<le> li_production_date li \<and> li_production_date li \<le> e
                 \<and> li_order li \<in> row_id ` set (order_table db)
                 \<and> li_item li \<in> item_id ` set (item_table db))
                \<and> (li_production_date li = d \<and> li_item li = item_id it0)
            then li_amount li else 0)"
proof (cases "find (\<lambda>r. row_id r = li_order li) (order_table db)")
  case None
  then have "li_order li \<notin> row_id ` set (order_table db)" by (simp add: find_key_None)
  then show ?thesis using None by (simp add: joined_def)
next
  case (Some r)
  then have r: "li_order li \<in> row_id ` set (order_table db)"
    using find_key_None[of row_id "li_order li" "order_table db"] by auto
  show ?thesis
  proof (cases "find (\<lambda>it. item_id it = li_item li) (item_table db)")
    case None
    then have "li_item li \<notin> item_id ` set (item_table db)" by (simp add: find_key_None)
    then show ?thesis using None Some by (simp add: joined_def)
  next
    case it: (Some it)
    then have i: "it \<in> set (item_table db)" "item_id it = li_item li"
      using find_distinct_Some[OF ids] by auto
    then have ex: "li_item li \<in> item_id ` set (item_table db)" by force
    have j: "joined db li = [(li, it)]" using Some it by (simp add: joined_def)
    note same = same_item_iff[OF ids names i(1) it0]
    show ?thesis unfolding j using r ex same i(2) by (auto simp: plan_key_def)
  qed
qed

lemma group_total:
  assumes orders: "distinct (map row_id (order_table db))"
      and ids: "distinct (map item_id (item_table db))"
      and names: "distinct (map item_name (item_table db))"
      and it0: "it0 \<in> set (item_table db)"
  shows "sum_list (map (\<lambda>j. li_amount (fst j))
           (filter (\<lambda>j. plan_key j = (d, item_name it0, seed_quantity it0, substrate it0))
              (filter (\<lambda>j. s \<le> li_production_date (fst j) \<and> li_production_date (fst j) \<le> e)
                 (plan_join db))))
         = pr_total_amount (group_row db s e d it0)"
proof -
  have "sum_list (map (\<lambda>j. li_amount (fst j))
           (filter (\<lambda>j. plan_key j = (d, item_name it0, seed_quantity it0, substrate it0))
              (filter (\<lambda>j. s \<le> li_production_date (fst j) \<and> li_production_date (fst j) \<le> e)
                 (plan_join db))))
        = sum_list (map (\<lambda>li. sum_list (map (\<lambda>j. li_amount (fst j))
           (filter (\<lambda>j. (s \<le> li_production_date (fst j) \<and> li_production_date (fst j) \<le> e)
                        \<and> plan_key j = (d, item_name it0, seed_quantity it0, substrate it0))
              (joined db li)))) (orderitem_table db))"
    by (simp only: filter_filter plan_join_joined[OF orders ids] sum_list_filter_concat)
  also have "\<dots> = sum_list (map (\<lambda>li.
            if (s \<le> li_production_date li \<and> li_production_date li \<le> e
                 \<and> li_order li \<in> row_id ` set (order_table db)
                 \<and> li_item li \<in> item_id ` set (item_table db))
                \<and> (li_production_date li = d \<and> li_item li = item_id it0)
            then li_amount li else 0) (orderitem_table db))"
    by (simp only: joined_total[OF orders ids names it0])
  also have "\<dots> = pr_total_amount (group_row db s e d it0)"
    by (simp only: group_row_def plan_line_items_def filter_filter sum_list_filter_if
        plan_row.simps)
  finally show ?thesis .
qed

lemma sorted_keys_ordered:
  fixes keys :: "(date \<times> pystr \<times> real \<times> pystr option) list"
  assumes "sorted keys"
  shows "sorted_wrt (\<lambda>a b. fst a < fst b
            \<or> (fst a = fst b \<and> (fst (snd a) = fst (snd b) \<or> pystr_less (fst (snd a)) (fst (snd b)))))
           keys"
proof (rule sorted_wrt_mono_rel[OF _ assms])
  fix a b :: "date \<times> pystr \<times> real \<times> pystr option"
  assume "a \<le> b"
  then show "fst a < fst b
            \<or> (fst a = fst b \<and> (fst (snd a) = fst (snd b) \<or> pystr_less (fst (snd a)) (fst (snd b))))"
    by (cases a; cases b) (auto simp: pystr_less_iff)
qed

lemma get_production_plan_unfold:
  "get_production_plan db (Some s) (Some e) =
     map (\<lambda>k. \<lparr> pr_production_date = fst k, pr_item_name = fst (snd k),
                 pr_seed_quantity = fst (snd (snd k)), pr_substrate = snd (snd (snd k)),
                 pr_total_amount =
                   sum_list (map (\<lambda>j. li_amount (fst j))
                     (filter (\<lambda>j. plan_key j = k)
                        (filter (\<lambda>j. s \<le> li_production_date (fst j)
                                     \<and> li_production_date (fst j) \<le> e) (plan_join db)))) \<rparr>)
       (sort (remdups (map plan_key
          (filter (\<lambda>j. s \<le> li_production_date (fst j)
                       \<and> li_production_date (fst j) \<le> e) (plan_join db)))))"
  by (simp add: get_production_plan_def Let_def)

lemma plan_row_of_key:
  assumes orders: "distinct (map row_id (order_table db))"
      and ids: "distinct (map item_id (item_table db))"
      and names: "distinct (map item_name (item_table db))"
      and j: "(li, it) \<in> set (plan_join db)"
  shows "\<lparr> pr_production_date = fst (plan_key (li, it)),
           pr_item_name = fst (snd (plan_key (li, it))),
           pr_seed_quantity = fst (snd (snd (plan_key (li, it)))),
           pr_substrate = snd (snd (snd (plan_key (li, it)))),
           pr_total_amount =
             sum_list (map (\<lambda>j. li_amount (fst j))
               (filter (\<lambda>j. plan_key j = plan_key (li, it))
                  (filter (\<lambda>j. s \<le> li_production_date (fst j)
                               \<and> li_production_date (fst j) \<le> e) (plan_join db)))) \<rparr>
         = group_row db s e (li_production_date li) it"
proof -
  have it: "it \<in> set (item_table db)" using j by (simp add: plan_join_set)
  have k: "plan_key (li, it) = (li_production_date li, item_name it, seed_quantity it, substrate it)"
    by (simp add: plan_key_def)
  show ?thesis
    unfolding k group_total[OF orders ids names it]
    by (simp add: group_row_def)
qed

lemma get_production_plan_set:
  assumes orders: "distinct (map row_id (order_table db))"
      and ids: "distinct (map item_id (item_table db))"
      and names: "distinct (map item_name (item_table db))"
  shows "set (get_production_plan db (Some s) (Some e)) =
           {group_row db s e (li_production_date li) it | li it.
              li \<in> set (plan_line_items db s e) \<and> it \<in> set (item_table db)
              \<and> item_id it = li_item li}"
proof -
  let ?rows = "filter (\<lambda>j. s \<le> li_production_date (fst j) \<and> li_production_date (fst j) \<le> e)
                 (plan_join db)"
  let ?mk = "\<lambda>k. \<lparr> pr_production_date = fst k, pr_item_name = fst (snd k),
                 pr_seed_quantity = fst (snd (snd k)), pr_substrate = snd (snd (snd k)),
                 pr_total_amount =
                   sum_list (map (\<lambda>j. li_amount (fst j)) (filter (\<lambda>j. plan_key j = k) ?rows)) \<rparr>"
  have "set (get_production_plan db (Some s) (Some e)) = (\<lambda>j. ?mk (plan_key j)) ` set ?rows"
    unfolding get_production_plan_unfold by (simp add: image_image)
  also have "\<dots> = {group_row db s e (li_production_date li) it | li it. (li, it) \<in> set ?rows}"
  proof -
    have mk: "?mk (plan_key (li, it)) = group_row db s e (li_production_date li) it"
      if "(li, it) \<in> set ?rows" for li it
      using plan_row_of_key[OF orders ids names, of li it s e] that by simp
    show ?thesis
    proof (intro set_eqI iffI)
      fix x assume "x \<in> (\<lambda>j. ?mk (plan_key j)) ` set ?rows"
      then obtain j where j: "j \<in> set ?rows" "x = ?mk (plan_key j)" by blast
      obtain li it where lit: "j = (li, it)" by (cases j)
      have "x = group_row db s e (li_production_date li) it"
        using mk[of li it] j unfolding lit by simp
      then show "x \<in> {group_row db s e (li_production_date li) it | li it. (li, it) \<in> set ?rows}"
        using j(1) unfolding lit by blast
    next
      fix x assume "x \<in> {group_row db s e (li_production_date li) it | li it. (li, it) \<in> set ?rows}"
      then obtain li it where lit: "(li, it) \<in> set ?rows"
        "x = group_row db s e (li_production_date li) it" by blast
      have "x = ?mk (plan_key (li, it))" using mk[OF lit(1)] lit(2) by simp
      then show "x \<in> (\<lambda>j. ?mk (plan_key j)) ` set ?rows" using lit(1) by (rule image_eqI)
    qed
  qed
  also have "\<dots> = {group_row db s e (li_production_date li) it | li it.
              li \<in> set (plan_line_items db s e) \<and> it \<in> set (item_table db)
              \<and> item_id it = li_item li}"
  proof -
    have "(li, it) \<in> set ?rows \<longleftrightarrow>
            li \<in> set (plan_line_items db s e) \<and> it \<in> set (item_table db) \<and> item_id it = li_item li"
      for li it
      by (force simp: plan_join_set plan_line_items_def image_iff)
    then show ?thesis by simp
  qed
  finally show ?thesis .
qed

lemma get_production_plan_ordered:
  "ordered_by_date_then_name (get_production_plan db (Some s) (Some e))"
  unfolding get_production_plan_unfold ordered_by_date_then_name_def
  by (simp add: sorted_wrt_map sorted_keys_ordered)

lemma get_production_plan_one_row_per_group:
  assumes names: "distinct (map item_name (item_table db))"
  shows "distinct (map (\<lambda>r. (pr_production_date r, pr_item_name r))
           (get_production_plan db (Some s) (Some e)))"
proof -
  let ?rows = "filter (\<lambda>j. s \<le> li_production_date (fst j) \<and> li_production_date (fst j) \<le> e)
                 (plan_join db)"
  let ?keys = "sort (remdups (map plan_key ?rows))"
  have d: "distinct ?keys" by simp
  have inj: "inj_on (\<lambda>k. (fst k, fst (snd k))) (set ?keys)"
  proof (rule inj_onI)
    fix a b assume a: "a \<in> set ?keys" and b: "b \<in> set ?keys"
      and eq: "(fst a, fst (snd a)) = (fst b, fst (snd b))"
    from a obtain li it where ja: "(li, it) \<in> set (plan_join db)" "a = plan_key (li, it)" by auto
    from b obtain li' it' where jb: "(li', it') \<in> set (plan_join db)" "b = plan_key (li', it')" by auto
    have "it \<in> set (item_table db)" "it' \<in> set (item_table db)"
      using ja(1) jb(1) by (simp_all add: plan_join_set)
    moreover have "item_name it = item_name it'" using eq ja(2) jb(2) by (simp add: plan_key_def)
    ultimately have "it = it'" using names by (meson distinct_map inj_onD)
    then show "a = b" using eq ja(2) jb(2) by (simp add: plan_key_def)
  qed
  have "distinct (map (\<lambda>k. (fst k, fst (snd k))) ?keys)"
    using d inj by (simp add: distinct_map)
  then show ?thesis unfolding get_production_plan_unfold by (simp add: comp_def)
qed

text \<open>
  C9, as amended. For a window with both bounds, in a store whose primary keys and item
  names are unique (the schema's constraints), the production view has exactly one row
  for every pair of a production date and an item that occurs among the window's line
  items whose order and item rows exist; the row carries the sum of the amounts of
  these line items, and the rows are ordered by production date, then item name.
\<close>

theorem production_plan_groups_sums_and_order:
  assumes "distinct (map row_id (order_table db))"
      and "distinct (map item_id (item_table db))"
      and "distinct (map item_name (item_table db))"
  shows "set (get_production_plan db (Some s) (Some e)) =
           {group_row db s e (li_production_date li) it | li it.
              li \<in> set (plan_line_items db s e) \<and> it \<in> set (item_table db)
              \<and> item_id it = li_item li}
       \<and> distinct (map (\<lambda>r. (pr_production_date r, pr_item_name r))
            (get_production_plan db (Some s) (Some e)))
       \<and> ordered_by_date_then_name (get_production_plan db (Some s) (Some e))"
  using get_production_plan_set[OF assms] get_production_plan_one_row_per_group[OF assms(3)]
    get_production_plan_ordered
  by blast

lemmas plan_defs = get_production_plan_def plan_join_def plan_key_def plan_shop_def
  kresse_row_def erbse_row_def str_def group_row_def plan_line_items_def
  ordered_by_date_then_name_def

theorem production_plan_groups_sums_and_order_witness:
  "distinct (map row_id (order_table plan_shop))
   \<and> distinct (map item_id (item_table plan_shop))
   \<and> distinct (map item_name (item_table plan_shop))
   \<and> get_production_plan plan_shop (Some 739400) (Some 739406) = [erbse_row, kresse_row]
   \<and> group_row plan_shop 739400 739406 739401 erbse = erbse_row
   \<and> group_row plan_shop 739400 739406 739401 kresse = kresse_row
   \<and> ordered_by_date_then_name (get_production_plan plan_shop (Some 739400) (Some 739406))"
  using production_plan_groups_sums_and_order [of plan_shop 739400 739406]
  by (simp add: plan_defs shop_defs)

text \<open>
  C9 as stated counts every line item whose production date falls in the window. In
  the store \<open>plan_shop_dangling\<close> two more line items are started on 30 May 2025, in the
  window 29 May to 4 June: three units of \<open>erbse\<close>, whose item row is gone, and four
  units of \<open>kresse\<close>, whose order row is gone. The joins drop both, and the view has
  the one row of \<open>kresse\<close> with the seven units of the two other line items.
\<close>

theorem dangling_line_items_counterexample:
  "shop_line 2 2 erbse 3 739411 \<in> set (orderitem_table plan_shop_dangling)
   \<and> li_production_date (shop_line 2 2 erbse 3 739411) = 739401
   \<and> li_amount (shop_line 2 2 erbse 3 739411) = 3
   \<and> shop_line 4 4 kresse 4 739407 \<in> set (orderitem_table plan_shop_dangling)
   \<and> li_production_date (shop_line 4 4 kresse 4 739407) = 739401
   \<and> li_amount (shop_line 4 4 kresse 4 739407) = 4
   \<and> get_production_plan plan_shop_dangling (Some 739400) (Some 739406) = [kresse_row]
   \<and> pr_total_amount kresse_row = 7"
  by (simp add: plan_defs shop_defs plan_shop_dangling_def)

section \<open>Properties of the amount validation\<close>

text \<open>
  Both validators reject a cadence label with the message that names an invalid amount
  and a subscription type, reject any other text that \<^verbatim>\<open>float\<close> does not accept with
  the generic message, and reject a number that is not positive. In the edit dialog of
  the weekly view a rejection comes before the transaction and the store stays as it
  was.
\<close>

lemma strip_cadence_label: "s \<in> set cadence_labels \<Longrightarrow> strip s = s"
  by (auto simp: cadence_labels_def strip_def isspace_def str_def)

lemma validate_amount_cases:
  "validate_amount pyfloat s n =
     (if s \<in> set cadence_labels then Inl (label_message s n)
      else if pyfloat (replace_comma s) = None then Inl (parse_message n)
      else if the (pyfloat (replace_comma s)) \<le> 0 then Inl (not_positive_message n)
      else Inr (the (pyfloat (replace_comma s))))"
  by (auto simp: validate_amount_def split: option.splits)

lemma label_message_mentions:
  "\<exists>post. label_message s n = (str ''Ung'' @ [252] @ str ''ltige Menge'') @ post"
  "\<exists>pre post. label_message s n = pre @ str ''Abonnementtyp'' @ post"
  "label_message s n \<noteq> parse_message n"
proof -
  show "\<exists>post. label_message s n = (str ''Ung'' @ [252] @ str ''ltige Menge'') @ post"
    by (simp add: label_message_def str_def)
  have "label_message s n =
      (str ''Ung'' @ [252] @ str ''ltige Menge: '' @ [39] @ s @ [39] @ str '' scheint ein '')
        @ str ''Abonnementtyp''
        @ (str '' zu sein statt einer Zahl f'' @ [252] @ str ''r Artikel '' @ n)"
    by (simp add: label_message_def str_def)
  then show "\<exists>pre post. label_message s n = pre @ str ''Abonnementtyp'' @ post" by blast
  show "label_message s n \<noteq> parse_message n"
    by (simp add: label_message_def parse_message_def str_def)
qed

lemma gather_item_data_first_row:
  "gather_item_data pyfloat app_items ((n, entry) # rest) =
     (if strip entry \<in> set cadence_labels then Inl (label_message (strip entry) n)
      else if pyfloat (replace_comma (strip entry)) = None then Inl (parse_message n)
      else if the (pyfloat (replace_comma (strip entry))) \<le> 0 then Inl (not_positive_message n)
      else if n \<notin> dom app_items then Inl (unknown_item_message n)
      else (case gather_item_data pyfloat app_items rest of
              Inl msg \<Rightarrow> Inl msg
            | Inr items_data \<Rightarrow> Inr ((n, the (pyfloat (replace_comma (strip entry)))) # items_data)))"
  by (auto simp: Let_def split: option.splits sum.splits)

lemma save_changes_rejection_keeps_store:
  "gather_item_data pyfloat app_items (dlg_item_rows dlg) = Inl msg \<Longrightarrow>
   save_changes pyfloat app_items uuid4 now db order_obj dlg sc = Some (db, ShowError msg)"
  by (simp add: save_changes_def)

text \<open>
  C8. The series editor validates inside its transaction, row by row, after the rows
  before have been written, and leaves the block by \<^verbatim>\<open>return\<close>: the transaction is
  committed. With \<open>series_rows\<close> the second row is rejected for its cadence label, and
  the first row's order has lost its line items in the store that remains. The result
  does not depend on what \<^verbatim>\<open>float\<close> would return.
\<close>

theorem series_editor_rejection_commits_earlier_rows:
  "save_all_changes_rows pyfloat shop_items 739397 739432 1 shop None False [] series_rows
     = RowsReturned (label_message woechentlich (str ''Kresse'')) shop_after_rejection
   \<and> atomic shop (Inr shop_after_rejection) = shop_after_rejection
   \<and> order_items_of shop 1 = [shop_line 1 1 kresse 2 739397]
   \<and> order_items_of shop_after_rejection 1 = []"
  by (simp add: series_rows_def woechentlich_def validate_amount_def cadence_labels_def
      strip_def isspace_def serialize_order_def order_items_of_def get_item_def atomic_def
      save_order_row_def shop_after_rejection_def shop_items_def shop_defs str_def)

end
